theory Spec2Isabelle
  imports Complex_Main "HOL-Library.Sublist"
begin

section \<open>Numbers\<close>

text \<open>
  The program is TypeScript; every number in it is a JavaScript \<^verbatim>\<open>number\<close>, a double.
  Numbers are modelled as \<^typ>\<open>real\<close>, and the values \<^verbatim>\<open>NaN\<close> and
  \<^verbatim>\<open>Infinity\<close> do not exist. The formulas of the dim policy, of the sampler and of
  the control loop are evaluated exactly. The transition engine stores levels and compares
  them, so there the result of every addition, subtraction, multiplication and division is
  rounded as the program rounds it. The one unguarded division of the modelled code (the
  progress of an animation frame) is given a partial result below, so that no statement rests
  on HOL's \<open>x / 0 = 0\<close>.
\<close>

subsection \<open>Rounding to a double\<close>

text \<open>
  \<open>roundEven\<close> is the nearest integer, the even one of the two when they are equally near.
  \<open>roundDouble\<close> is the nearest number with a significand of 53 bits, that is a whole
  multiple of \<open>2\<close> to the power \<open>\<lfloor>log\<^sub>2 \<bar>x\<bar>\<rfloor> - 52\<close>, ties to the even multiple: the
  rounding of IEEE 754 double arithmetic. The exponent is not bounded, so there is no overflow
  and there are no subnormal numbers.
\<close>

definition roundEven :: "real \<Rightarrow> int" where
  "roundEven y =
     (let f = \<lfloor>y\<rfloor>; r = y - of_int f
      in if r < 1 / 2 then f else if 1 / 2 < r then f + 1 else if even f then f else f + 1)"

definition roundDouble :: "real \<Rightarrow> real" where
  "roundDouble x =
     (if x = 0 then 0
      else let ulp = 2 powi (\<lfloor>log 2 \<bar>x\<bar>\<rfloor> - 52)
           in of_int (roundEven (x / ulp)) * ulp)"

subsection \<open>\<^verbatim>\<open>clamp\<close> (utils/overlay.ts)\<close>

text \<open>\<^verbatim>\<open>return Math.max(min, Math.min(max, value));\<close>\<close>

definition clamp :: "real \<Rightarrow> real \<Rightarrow> real \<Rightarrow> real" where
  "clamp v lo hi = max lo (min hi v)"

section \<open>Dim policy (utils/brightness.ts)\<close>

definition calculateDimAmount :: "real \<Rightarrow> real \<Rightarrow> real \<Rightarrow> bool \<Rightarrow> real" where
  "calculateDimAmount brightness threshold maxIntensity dynamicMode =
     (if brightness \<le> threshold then 0
      else if \<not> dynamicMode then maxIntensity
      else
        let brightnessOverThreshold = brightness - threshold;
            maxOverThreshold = 1 - threshold;
            scaleFactor =
              (if maxOverThreshold > 0 then brightnessOverThreshold / maxOverThreshold else 1)
        in maxIntensity * scaleFactor)"

text \<open>
  The reference definition, written from the words of the specification: three cases, the
  third with its guard on the divisor.
\<close>

definition computeDimAmount_spec :: "real \<Rightarrow> real \<Rightarrow> real \<Rightarrow> bool \<Rightarrow> real" where
  "computeDimAmount_spec brightness threshold maxIntensity dynamicMode =
     (if brightness \<le> threshold then 0
      else if \<not> dynamicMode then maxIntensity
      else if 1 - threshold \<le> 0 then maxIntensity
      else maxIntensity * (brightness - threshold) / (1 - threshold))"

section \<open>Colour parsing and brightness sampling (utils/brightness.ts)\<close>

text \<open>
  Strings are lists of 8-bit characters. \<^verbatim>\<open>\d\<close> is one of the ten ASCII digits.
  \<^verbatim>\<open>\s\<close> is, among the characters below 256, one of tab, line feed, vertical tab, form
  feed, carriage return, space and no-break space.
\<close>

definition isDigit :: "char \<Rightarrow> bool" where
  "isDigit c = (c \<in> set ''0123456789'')"

definition isSpace :: "char \<Rightarrow> bool" where
  "isSpace c = (c \<in> set [CHR 0x09, CHR 0x0A, CHR 0x0B, CHR 0x0C, CHR 0x0D, CHR 0x20, CHR 0xA0])"

definition isDigitOrDot :: "char \<Rightarrow> bool" where
  "isDigitOrDot c = (isDigit c \<or> c = CHR ''.'')"

text \<open>\<^verbatim>\<open>parseInt(ds, 10)\<close> on a string of digits.\<close>

definition digitValue :: "char \<Rightarrow> nat" where
  "digitValue c = of_char c - 48"

definition parseInt :: "string \<Rightarrow> nat" where
  "parseInt ds = foldl (\<lambda>n c. 10 * n + digitValue c) 0 ds"

definition stripPrefix :: "string \<Rightarrow> string \<Rightarrow> string option" where
  "stripPrefix p s = (if prefix p s then Some (drop (length p) s) else None)"

text \<open>
  The regular expression
  \<^verbatim>\<open>/rgba?\((\d+),\s*(\d+),\s*(\d+)(?:,\s*[\d.]+)?\)/\<close>
  matched at the start of \<open>s\<close>; the result is the text of its three groups, and
  \<open>matchTail\<close> is its end \<^verbatim>\<open>(?:,\s*[\d.]+)?\)\<close>. Every repetition
  is followed by a character outside its class (a comma or a parenthesis after digits, a digit
  after white space), and both optional parts are followed by a character they cannot start
  with, so the longest repetition is the only one that can lead to a match and no other
  alternative has to be tried.
\<close>

definition matchTail :: "string \<Rightarrow> bool" where
  "matchTail s10 =
     (case stripPrefix '','' s10 of
        Some s11 \<Rightarrow>
          let s12 = dropWhile isSpace s11;
              alpha = takeWhile isDigitOrDot s12; s13 = dropWhile isDigitOrDot s12
          in alpha \<noteq> [] \<and> prefix '')'' s13
      | None \<Rightarrow> prefix '')'' s10)"

definition matchHere :: "string \<Rightarrow> (string \<times> string \<times> string) option" where
  "matchHere s =
     (case stripPrefix ''rgb'' s of None \<Rightarrow> None | Some s1 \<Rightarrow>
      let s2 = (case stripPrefix ''a'' s1 of None \<Rightarrow> s1 | Some rest \<Rightarrow> rest) in
      case stripPrefix ''('' s2 of None \<Rightarrow> None | Some s3 \<Rightarrow>
      let g1 = takeWhile isDigit s3; s4 = dropWhile isDigit s3 in
      if g1 = [] then None else
      case stripPrefix '','' s4 of None \<Rightarrow> None | Some s5 \<Rightarrow>
      let s6 = dropWhile isSpace s5; g2 = takeWhile isDigit s6; s7 = dropWhile isDigit s6 in
      if g2 = [] then None else
      case stripPrefix '','' s7 of None \<Rightarrow> None | Some s8 \<Rightarrow>
      let s9 = dropWhile isSpace s8; g3 = takeWhile isDigit s9; s10 = dropWhile isDigit s9 in
      if g3 = [] then None
      else if matchTail s10 then Some (g1, g2, g3) else None)"

text \<open>\<^verbatim>\<open>colorStr.match(...)\<close> without the global flag: the leftmost match.\<close>

fun regexMatch :: "string \<Rightarrow> (string \<times> string \<times> string) option" where
  "regexMatch [] = matchHere []"
| "regexMatch (c # s) =
     (case matchHere (c # s) of Some groups \<Rightarrow> Some groups | None \<Rightarrow> regexMatch s)"

definition getColorBrightness :: "string \<Rightarrow> real option" where
  "getColorBrightness colorStr =
     (if colorStr = [] \<or> colorStr = ''transparent'' \<or> colorStr = ''rgba(0, 0, 0, 0)'' then None
      else case regexMatch colorStr of
        Some (g1, g2, g3) \<Rightarrow>
          let r = real (parseInt g1) / 255;
              g = real (parseInt g2) / 255;
              b = real (parseInt g3) / 255
          in Some (299 / 1000 * r + 587 / 1000 * g + 114 / 1000 * b)
      | None \<Rightarrow> None)"

text \<open>
  The strings of the colour-parsing contract: the name \<^verbatim>\<open>rgb\<close> or \<^verbatim>\<open>rgba\<close>, three
  channels written in digits, white space \<open>w1\<close> and \<open>w2\<close> after the two commas, and
  possibly a fourth component \<open>alpha\<close> after a comma and white space \<open>w3\<close>.
\<close>

definition rgbText ::
  "bool \<Rightarrow> string \<Rightarrow> string \<Rightarrow> string \<Rightarrow> string \<Rightarrow> string \<Rightarrow> (string \<times> string) option \<Rightarrow> string" where
  "rgbText withA ds1 w1 ds2 w2 ds3 fourth =
     (if withA then ''rgba'' else ''rgb'') @ ''('' @ ds1 @ '','' @ w1 @ ds2 @ '','' @ w2 @ ds3
       @ (case fourth of None \<Rightarrow> [] | Some (w3, alpha) \<Rightarrow> '','' @ w3 @ alpha) @ '')''"

definition digits :: "string \<Rightarrow> bool" where
  "digits ds = (ds \<noteq> [] \<and> list_all isDigit ds)"

definition spaces :: "string \<Rightarrow> bool" where
  "spaces w = list_all isSpace w"

definition alphaText :: "(string \<times> string) option \<Rightarrow> bool" where
  "alphaText fourth =
     (case fourth of None \<Rightarrow> True
      | Some (w3, alpha) \<Rightarrow> spaces w3 \<and> alpha \<noteq> [] \<and> list_all isDigitOrDot alpha)"




text \<open>
  The page as the sampler sees it: the size of the viewport, the elements under a point
  from the topmost down (\<^verbatim>\<open>document.elementsFromPoint\<close>), \<^verbatim>\<open>document.body\<close>, which may
  be null, and \<^verbatim>\<open>document.documentElement\<close>. Of an element the sampler reads its
  \<^verbatim>\<open>id\<close> and the background colour of its computed style.
\<close>

record Element =
  elementId :: string
  backgroundColor :: string

record Page =
  innerWidth :: real
  innerHeight :: real
  elementsFromPoint :: "real \<Rightarrow> real \<Rightarrow> Element list"
  body :: "Element option"
  documentElement :: Element

text \<open>The body of the two nested loops, on the pair of \<open>totalBrightness\<close> and \<open>sampleCount\<close>.\<close>

definition samplePoint :: "string \<Rightarrow> Page \<Rightarrow> nat \<Rightarrow> nat \<Rightarrow> nat \<Rightarrow> real \<times> real \<Rightarrow> real \<times> real" where
  "samplePoint overlayId page sampleSize x y acc =
     (let sampleX = ((real x + 1 / 2) / real sampleSize) * innerWidth page;
          sampleY = ((real y + 1 / 2) / real sampleSize) * innerHeight page;
          elementsAtPoint = elementsFromPoint page sampleX sampleY
      in case find (\<lambda>el. elementId el \<noteq> overlayId) elementsAtPoint of
           None \<Rightarrow> acc
         | Some element \<Rightarrow>
             (case getColorBrightness (backgroundColor element) of
                None \<Rightarrow> acc
              | Some bgBrightness \<Rightarrow> (fst acc + bgBrightness, snd acc + 1)))"

definition sampleGrid :: "string \<Rightarrow> Page \<Rightarrow> nat \<Rightarrow> real \<times> real" where
  "sampleGrid overlayId page sampleSize =
     foldl (\<lambda>acc x. foldl (\<lambda>acc y. samplePoint overlayId page sampleSize x y acc) acc [0..<sampleSize])
       (0, 0) [0..<sampleSize]"

text \<open>One of the two extra samples, weighted with half the base weight.\<close>

definition sampleBackground :: "Element \<Rightarrow> real \<Rightarrow> real \<times> real \<Rightarrow> real \<times> real" where
  "sampleBackground el baseWeight acc =
     (case getColorBrightness (backgroundColor el) of
        None \<Rightarrow> acc
      | Some bg \<Rightarrow> (fst acc + bg * baseWeight * (1 / 2), snd acc + baseWeight * (1 / 2)))"

definition samplePageBrightness :: "string \<Rightarrow> Page \<Rightarrow> real" where
  "samplePageBrightness overlayId page =
     (let sampleSize = 10;
          grid = sampleGrid overlayId page sampleSize;
          baseWeight = max (snd grid) 1;
          withBody = (case body page of None \<Rightarrow> grid | Some b \<Rightarrow> sampleBackground b baseWeight grid);
          withHtml = sampleBackground (documentElement page) baseWeight withBody
      in if snd withHtml > 0 then fst withHtml / snd withHtml else 1 / 2)"

text \<open>
  What the sampler reads: at each of the grid points the first element that is not the
  overlay, then the body and the root element. \<open>gridElements\<close> is the list of elements
  under the grid point of column \<open>x\<close> and row \<open>y\<close>, and \<open>onGrid\<close> says that a property
  holds of that list at every grid point.
\<close>

definition gridElements :: "Page \<Rightarrow> nat \<Rightarrow> nat \<Rightarrow> nat \<Rightarrow> Element list" where
  "gridElements page sampleSize x y =
     elementsFromPoint page (((real x + 1 / 2) / real sampleSize) * innerWidth page)
       (((real y + 1 / 2) / real sampleSize) * innerHeight page)"

definition onGrid :: "Page \<Rightarrow> nat \<Rightarrow> (Element list \<Rightarrow> bool) \<Rightarrow> bool" where
  "onGrid page sampleSize Q =
     list_all (\<lambda>x. list_all (\<lambda>y. Q (gridElements page sampleSize x y)) [0..<sampleSize])
       [0..<sampleSize]"

text \<open>The signal one colour string gives is at most 1, or there is none.\<close>

definition signalAtMostOne :: "string \<Rightarrow> bool" where
  "signalAtMostOne colorStr = (case getColorBrightness colorStr of None \<Rightarrow> True | Some v \<Rightarrow> v \<le> 1)"

definition signalAtMostOneAt :: "string \<Rightarrow> Element list \<Rightarrow> bool" where
  "signalAtMostOneAt overlayId els =
     (case find (\<lambda>el. elementId el \<noteq> overlayId) els of
        None \<Rightarrow> True
      | Some element \<Rightarrow> signalAtMostOne (backgroundColor element))"

definition noSignal :: "string \<Rightarrow> Element list \<Rightarrow> bool" where
  "noSignal overlayId els =
     (case find (\<lambda>el. elementId el \<noteq> overlayId) els of
        None \<Rightarrow> True
      | Some element \<Rightarrow> getColorBrightness (backgroundColor element) = None)"

definition signalsAtMostOne :: "string \<Rightarrow> Page \<Rightarrow> bool" where
  "signalsAtMostOne overlayId page =
     (onGrid page 10 (signalAtMostOneAt overlayId)
      \<and> (case body page of None \<Rightarrow> True | Some b \<Rightarrow> signalAtMostOne (backgroundColor b))
      \<and> signalAtMostOne (backgroundColor (documentElement page)))"

definition noSignals :: "string \<Rightarrow> Page \<Rightarrow> bool" where
  "noSignals overlayId page =
     (onGrid page 10 (noSignal overlayId)
      \<and> (case body page of None \<Rightarrow> True | Some b \<Rightarrow> getColorBrightness (backgroundColor b) = None)
      \<and> getColorBrightness (backgroundColor (documentElement page)) = None)"

text \<open>
  A page of one colour, for the examples: under every point lie the overlay and, below it, one
  element of the colour; the body and the root element have the colour too.
\<close>

definition uniformPage :: "string \<Rightarrow> string \<Rightarrow> Page" where
  "uniformPage overlayId color =
     \<lparr>innerWidth = 1280, innerHeight = 720,
      elementsFromPoint = (\<lambda>x y. [\<lparr>elementId = overlayId, backgroundColor = ''rgb(0, 0, 0)''\<rparr>,
                                    \<lparr>elementId = ''main'', backgroundColor = color\<rparr>]),
      body = Some \<lparr>elementId = ''body'', backgroundColor = color\<rparr>,
      documentElement = \<lparr>elementId = ''html'', backgroundColor = color\<rparr>\<rparr>"

text \<open>
  A page with a colour where the sampler does not look: one element of the colour under the
  top left corner of the viewport, which is no grid point, nothing under any other point, no
  body and a transparent root element.
\<close>

definition cornerPage :: "string \<Rightarrow> Page" where
  "cornerPage color =
     \<lparr>innerWidth = 1280, innerHeight = 720,
      elementsFromPoint =
        (\<lambda>x y. if x = 0 \<and> y = 0 then [\<lparr>elementId = ''main'', backgroundColor = color\<rparr>] else []),
      body = None,
      documentElement = \<lparr>elementId = ''html'', backgroundColor = ''rgba(0, 0, 0, 0)''\<rparr>\<rparr>"

section \<open>Pattern matching (utils/patterns.ts)\<close>

text \<open>
  \<^verbatim>\<open>String.prototype.includes\<close>: \<open>str_includes s t\<close> holds when \<open>t\<close> occurs in \<open>s\<close> as a
  contiguous run of characters, searched from the left.
\<close>

fun str_includes :: "string \<Rightarrow> string \<Rightarrow> bool" where
  "str_includes [] t = (t = [])"
| "str_includes (c # s) t = (prefix t (c # s) \<or> str_includes s t)"

text \<open>
  \<^verbatim>\<open>if (!hostname || !pattern) return false;\<close> and
  \<^verbatim>\<open>return hostname.includes(pattern) || pattern.includes(hostname);\<close>
  A string is falsy exactly when it is empty.
\<close>

definition matchesPattern :: "string \<Rightarrow> string \<Rightarrow> bool" where
  "matchesPattern hostname pattern =
     (if hostname = [] \<or> pattern = [] then False
      else str_includes hostname pattern \<or> str_includes pattern hostname)"

text \<open>\<^verbatim>\<open>return patterns.some((pattern) => matchesPattern(hostname, pattern));\<close>\<close>

definition matchesAnyPattern :: "string \<Rightarrow> string list \<Rightarrow> bool" where
  "matchesAnyPattern hostname patterns = list_ex (\<lambda>pattern. matchesPattern hostname pattern) patterns"

text \<open>
  The relation of the specification: \<open>t\<close> is a substring of \<open>s\<close> when \<open>s\<close> is \<open>t\<close> with
  something before and something after it.
\<close>

definition contains :: "string \<Rightarrow> string \<Rightarrow> bool" where
  "contains s t = (\<exists>before after. s = before @ t @ after)"

section \<open>Transition engine (utils/animation.ts)\<close>

record AnimationState =
  frameId :: "nat option"
  currentLevel :: real
  targetLevel :: real

text \<open>
  The closure \<^verbatim>\<open>animate\<close> that \<^verbatim>\<open>animateDimLevel\<close> hands to
  \<^verbatim>\<open>requestAnimationFrame\<close> captures three values; the state object and the callback
  \<^verbatim>\<open>onUpdate\<close> it also refers to are those of the engine below.
\<close>

record Animation =
  startLevel :: real
  startTime :: real
  duration :: real

text \<open>
  The engine is the state object together with the part of the browser it talks to: the
  callbacks requested with \<^verbatim>\<open>requestAnimationFrame\<close> and not yet run or cancelled, the
  next handle the browser will give out, and the arguments \<^verbatim>\<open>onUpdate\<close> has been called
  with so far, oldest first.
\<close>

record Engine =
  state :: AnimationState
  scheduled :: "nat \<rightharpoonup> Animation"
  nextHandle :: nat
  updates :: "real list"

definition createAnimationState :: AnimationState where
  "createAnimationState = \<lparr>frameId = None, currentLevel = 0, targetLevel = 0\<rparr>"

definition createEngine :: Engine where
  "createEngine = \<lparr>state = createAnimationState, scheduled = Map.empty, nextHandle = 1, updates = []\<rparr>"

definition requestAnimationFrame :: "Animation \<Rightarrow> Engine \<Rightarrow> nat \<times> Engine" where
  "requestAnimationFrame a e =
     (nextHandle e, e\<lparr>scheduled := (scheduled e)(nextHandle e \<mapsto> a), nextHandle := nextHandle e + 1\<rparr>)"

definition cancelAnimationFrame :: "nat \<Rightarrow> Engine \<Rightarrow> Engine" where
  "cancelAnimationFrame k e = e\<lparr>scheduled := (scheduled e)(k := None)\<rparr>"

definition cancelAnimation :: "Engine \<Rightarrow> Engine" where
  "cancelAnimation e =
     (case frameId (state e) of
        None \<Rightarrow> e
      | Some k \<Rightarrow> (cancelAnimationFrame k e)\<lparr>state := (state e)\<lparr>frameId := None\<rparr>\<rparr>)"

text \<open>
  \<^verbatim>\<open>Math.min(elapsed / duration, 1)\<close>. With a duration of zero JavaScript divides to
  \<^verbatim>\<open>Infinity\<close> (minimum 1) when time has passed, and to \<^verbatim>\<open>NaN\<close> or
  \<^verbatim>\<open>-Infinity\<close> otherwise: these are not real numbers, and the result is \<open>None\<close>.
\<close>

definition progressOf :: "real \<Rightarrow> real \<Rightarrow> real option" where
  "progressOf elapsed dur =
     (if dur \<noteq> 0 then Some (min (roundDouble (elapsed / dur)) 1)
      else if elapsed > 0 then Some 1
      else None)"

text \<open>
  The body of the closure \<^verbatim>\<open>animate(currentTime)\<close>. The difference of the times, the
  quotient, and the difference, the product and the sum of the interpolation are rounded.
\<close>

definition animate :: "Animation \<Rightarrow> real \<Rightarrow> Engine \<Rightarrow> Engine option" where
  "animate a currentTime e =
     (let elapsed = roundDouble (currentTime - startTime a) in
      case progressOf elapsed (duration a) of
        None \<Rightarrow> None
      | Some progress \<Rightarrow>
          let level =
                clamp
                  (roundDouble
                     (startLevel a
                      + roundDouble (roundDouble (targetLevel (state e) - startLevel a) * progress)))
                  0 1;
              e1 = e\<lparr>state := (state e)\<lparr>currentLevel := level\<rparr>, updates := updates e @ [level]\<rparr>
          in if progress < 1
             then (case requestAnimationFrame a e1 of
                     (k, e2) \<Rightarrow> Some (e2\<lparr>state := (state e2)\<lparr>frameId := Some k\<rparr>\<rparr>))
             else Some (e1\<lparr>state := (state e1)\<lparr>frameId := None\<rparr>\<rparr>))"

text \<open>
  The browser runs the callback with handle \<open>k\<close> at the frame with timestamp \<open>t\<close>: the
  callback leaves the list of requested callbacks and is called. A handle with no callback
  behind it (never given out, already run, or cancelled) runs nothing.
\<close>

definition runFrame :: "nat \<Rightarrow> real \<Rightarrow> Engine \<Rightarrow> Engine option" where
  "runFrame k t e =
     (case scheduled e k of
        None \<Rightarrow> Some e
      | Some a \<Rightarrow> animate a t (e\<lparr>scheduled := (scheduled e)(k := None)\<rparr>))"

text \<open>
  \<^verbatim>\<open>animateDimLevel(state, targetLevel, duration, onUpdate)\<close>; \<open>now\<close> is what
  \<^verbatim>\<open>performance.now()\<close> returns during the call. The distance to the current target is a
  rounded difference, and it is compared with the double written \<^verbatim>\<open>0.05\<close>.
\<close>

definition animateDimLevel :: "Engine \<Rightarrow> real \<Rightarrow> real \<Rightarrow> real \<Rightarrow> Engine" where
  "animateDimLevel e requested dur now =
     (let newTarget = clamp requested 0 1 in
      if \<bar>roundDouble (newTarget - targetLevel (state e))\<bar> < roundDouble (5 / 100) then e
      else
        let e1 = e\<lparr>state := (state e)\<lparr>targetLevel := newTarget\<rparr>\<rparr>;
            e2 = cancelAnimation e1;
            a = \<lparr>startLevel = clamp (currentLevel (state e2)) 0 1, startTime = now, duration = dur\<rparr>
        in case requestAnimationFrame a e2 of
             (k, e3) \<Rightarrow> e3\<lparr>state := (state e3)\<lparr>frameId := Some k\<rparr>\<rparr>)"

definition setDimLevelImmediate :: "Engine \<Rightarrow> real \<Rightarrow> Engine" where
  "setDimLevelImmediate e level =
     (let e1 = cancelAnimation e;
          e2 = e1\<lparr>state := (state e1)\<lparr>currentLevel := clamp level 0 1\<rparr>\<rparr>;
          e3 = e2\<lparr>state := (state e2)\<lparr>targetLevel := currentLevel (state e2)\<rparr>\<rparr>
      in e3\<lparr>updates := updates e3 @ [currentLevel (state e3)]\<rparr>)"

text \<open>
  What can happen to an engine: a call of one of the three exported operations, or the browser
  running a requested callback.
\<close>

datatype Op =
    AnimateDimLevel real real real
  | SetDimLevelImmediate real
  | CancelAnimation
  | Frame nat real

fun exec :: "Op \<Rightarrow> Engine \<Rightarrow> Engine option" where
  "exec (AnimateDimLevel requested dur now) e = Some (animateDimLevel e requested dur now)"
| "exec (SetDimLevelImmediate level) e = Some (setDimLevelImmediate e level)"
| "exec CancelAnimation e = Some (cancelAnimation e)"
| "exec (Frame k t) e = runFrame k t e"

fun run :: "Op list \<Rightarrow> Engine \<Rightarrow> Engine option" where
  "run [] e = Some e"
| "run (x # xs) e = (case exec x e of None \<Rightarrow> None | Some e' \<Rightarrow> run xs e')"

text \<open>
  A sequence of frames with the timestamps \<open>ts\<close>: at each frame the browser runs the callback
  whose handle the state holds, if it holds one.
\<close>

fun frames :: "real list \<Rightarrow> Engine \<Rightarrow> Engine option" where
  "frames [] e = Some e"
| "frames (t # ts) e =
     (case frameId (state e) of
        None \<Rightarrow> frames ts e
      | Some k \<Rightarrow> (case runFrame k t e of None \<Rightarrow> None | Some e' \<Rightarrow> frames ts e'))"

text \<open>
  Idle: no handle in the state and no callback requested. Animating: the state holds the
  handle of the one requested callback.
\<close>

definition idle :: "Engine \<Rightarrow> bool" where
  "idle e = (frameId (state e) = None \<and> scheduled e = Map.empty)"

definition animating :: "Engine \<Rightarrow> bool" where
  "animating e = (case frameId (state e) of None \<Rightarrow> False | Some k \<Rightarrow> dom (scheduled e) = {k})"

definition levelsInRange :: "Engine \<Rightarrow> bool" where
  "levelsInRange e =
     (0 \<le> currentLevel (state e) \<and> currentLevel (state e) \<le> 1
      \<and> 0 \<le> targetLevel (state e) \<and> targetLevel (state e) \<le> 1
      \<and> list_all (\<lambda>u. 0 \<le> u \<and> u \<le> 1) (updates e))"

text \<open>
  At rest: Idle as the specification has it, with the current level equal to the target.
\<close>

definition atRest :: "Engine \<Rightarrow> bool" where
  "atRest e = (idle e \<and> currentLevel (state e) = targetLevel (state e))"

text \<open>
  The events that start no animation on the engine \<open>e\<close>: a cancel, a frame, and a request
  that \<open>animateDimLevel\<close> finds within its 5 percent of the target of \<open>e\<close>.
\<close>

fun startsNothing :: "Engine \<Rightarrow> Op \<Rightarrow> bool" where
  "startsNothing e (AnimateDimLevel requested dur now) =
     (\<bar>roundDouble (clamp requested 0 1 - targetLevel (state e))\<bar> < roundDouble (5 / 100))"
| "startsNothing e (SetDimLevelImmediate level) = False"
| "startsNothing e CancelAnimation = True"
| "startsNothing e (Frame k t) = True"

section \<open>Settings (types.ts, utils/settings.ts)\<close>

record SiteSettings =
  siteEnabled :: "bool option"
  siteDimIntensity :: "real option"

record Settings =
  enabled :: bool
  dimIntensity :: real
  brightnessThreshold :: real
  dynamicMode :: bool
  smoothing :: bool
  smoothingDuration :: real
  siteSettings :: "string \<rightharpoonup> SiteSettings"
  blacklist :: "string list"
  whitelist :: "string list"

definition DEFAULT_SETTINGS :: Settings where
  "DEFAULT_SETTINGS =
     \<lparr>enabled = True, dimIntensity = 3 / 10, brightnessThreshold = 6 / 10, dynamicMode = True,
      smoothing = True, smoothingDuration = 500, siteSettings = Map.empty,
      blacklist = [], whitelist = []\<rparr>"

text \<open>
  \<^verbatim>\<open>{ ...settings, ...siteOverride }\<close>: a field the override defines replaces the global
  one.
\<close>

definition getEffectiveSettings :: "Settings \<Rightarrow> string \<Rightarrow> Settings" where
  "getEffectiveSettings s host =
     (case siteSettings s host of
        Some siteOverride \<Rightarrow>
          s\<lparr>enabled := (case siteEnabled siteOverride of None \<Rightarrow> enabled s | Some v \<Rightarrow> v),
            dimIntensity := (case siteDimIntensity siteOverride of None \<Rightarrow> dimIntensity s | Some v \<Rightarrow> v)\<rparr>
      | None \<Rightarrow> s)"

definition isBlacklisted :: "Settings \<Rightarrow> string \<Rightarrow> bool" where
  "isBlacklisted s host = matchesAnyPattern host (blacklist s)"

definition isWhitelisted :: "Settings \<Rightarrow> string \<Rightarrow> bool" where
  "isWhitelisted s host = matchesAnyPattern host (whitelist s)"

section \<open>Control loop (content.ts)\<close>

definition OVERLAY_ID :: string where
  "OVERLAY_ID = ''auto-dimmer-overlay''"

definition DEFAULT_TRANSITION_DURATION :: real where
  "DEFAULT_TRANSITION_DURATION = 500"

definition BRIGHTNESS_SMOOTHING :: real where
  "BRIGHTNESS_SMOOTHING = 3 / 10"

definition DIM_CHANGE_THRESHOLD :: real where
  "DIM_CHANGE_THRESHOLD = 3 / 100"

text \<open>
  What the loop does that leaves its own variables: a call of \<^verbatim>\<open>samplePageBrightness\<close>
  with its result, a call of \<^verbatim>\<open>setDimLevel\<close> with its argument, and a call of
  \<^verbatim>\<open>saveSiteState\<close> with the host name, the dim level and the brightness it saves (the
  time stamp of the saved state is left out). \<open>Computed\<close> records the value of the local
  variable \<^verbatim>\<open>dimAmount\<close> of a cycle once it is computed.
\<close>

datatype Event =
    Sampled real
  | Computed real
  | Requested real
  | Saved string real "real option"

text \<open>
  The module's variables (the interval timer is not modelled), with the engine for
  \<^verbatim>\<open>animationState\<close> and the trace of events so far, oldest first.
\<close>

record Control =
  settings :: Settings
  animationState :: Engine
  lastBrightness :: "real option"
  smoothedBrightness :: "real option"
  lastAppliedDim :: real
  isChecking :: bool
  trace :: "Event list"

text \<open>
  What a cycle reads from outside: \<^verbatim>\<open>getHostname()\<close>, the page, and
  \<^verbatim>\<open>performance.now()\<close>.
\<close>

record Env =
  envHostname :: string
  envPage :: Page
  envNow :: real

definition initialControl :: "Settings \<Rightarrow> Control" where
  "initialControl s =
     \<lparr>settings = s, animationState = createEngine, lastBrightness = None,
      smoothedBrightness = None, lastAppliedDim = 0, isChecking = False, trace = []\<rparr>"

text \<open>
  \<^verbatim>\<open>effectiveSettings.smoothingDuration || DEFAULT_TRANSITION_DURATION\<close>: a duration of 0
  is falsy and gives the default.
\<close>

definition setDimLevel :: "Env \<Rightarrow> real \<Rightarrow> Control \<Rightarrow> Control" where
  "setDimLevel env level c =
     (let host = envHostname env;
          effectiveSettings = getEffectiveSettings (settings c) host;
          c1 = c\<lparr>trace := trace c @ [Requested level]\<rparr>
      in if smoothing effectiveSettings then
           let dur = (if smoothingDuration effectiveSettings = 0 then DEFAULT_TRANSITION_DURATION
                      else smoothingDuration effectiveSettings)
           in c1\<lparr>animationState := animateDimLevel (animationState c1) level dur (envNow env)\<rparr>
         else c1\<lparr>animationState := setDimLevelImmediate (animationState c1) level\<rparr>)"

definition checkAndDim :: "Env \<Rightarrow> Control \<Rightarrow> Control" where
  "checkAndDim env c =
     (if isChecking c then c
      else
        let c0 = c\<lparr>isChecking := True\<rparr>;
            host = envHostname env;
            effectiveSettings = getEffectiveSettings (settings c0) host
        in if \<not> enabled effectiveSettings \<or> isBlacklisted (settings c0) host then
             (if lastAppliedDim c0 \<noteq> 0
              then (setDimLevel env 0 c0)\<lparr>lastAppliedDim := 0, isChecking := False\<rparr>
              else c0\<lparr>isChecking := False\<rparr>)
           else
             let rawBrightness = samplePageBrightness OVERLAY_ID (envPage env);
                 c1 = c0\<lparr>lastBrightness := Some rawBrightness,
                         trace := trace c0 @ [Sampled rawBrightness]\<rparr>;
                 smoothed =
                   (case smoothedBrightness c1 of
                      None \<Rightarrow> rawBrightness
                    | Some previous \<Rightarrow>
                        BRIGHTNESS_SMOOTHING * rawBrightness + (1 - BRIGHTNESS_SMOOTHING) * previous);
                 c2 = c1\<lparr>smoothedBrightness := Some smoothed\<rparr>;
                 dimAmount =
                   (if isWhitelisted (settings c2) host then dimIntensity effectiveSettings
                    else calculateDimAmount smoothed (brightnessThreshold effectiveSettings)
                           (dimIntensity effectiveSettings) (dynamicMode effectiveSettings));
                 c3 = c2\<lparr>trace := trace c2 @ [Computed dimAmount]\<rparr>
             in if \<bar>dimAmount - lastAppliedDim c3\<bar> \<ge> DIM_CHANGE_THRESHOLD then
                  let c4 = (setDimLevel env dimAmount c3)\<lparr>lastAppliedDim := dimAmount\<rparr>;
                      saved = Saved host (currentLevel (state (animationState c4))) (lastBrightness c4)
                  in c4\<lparr>trace := trace c4 @ [saved], isChecking := False\<rparr>
                else c3\<lparr>isChecking := False\<rparr>)"

text \<open>The events a cycle adds to the trace.\<close>

definition cycleEvents :: "Env \<Rightarrow> Control \<Rightarrow> Event list" where
  "cycleEvents env c = drop (length (trace c)) (trace (checkAndDim env c))"

text \<open>A run of cycles, one for each environment of the list.\<close>

fun cycles :: "Env list \<Rightarrow> Control \<Rightarrow> Control" where
  "cycles [] c = c"
| "cycles (env # envs) c = cycles envs (checkAndDim env c)"

text \<open>
  The two values a sampling cycle computes, named for the statements below: the smoothed
  brightness and the local variable \<^verbatim>\<open>dimAmount\<close>.
\<close>

definition cycleSmoothed :: "Env \<Rightarrow> Control \<Rightarrow> real" where
  "cycleSmoothed env c =
     (case smoothedBrightness c of
        None \<Rightarrow> samplePageBrightness OVERLAY_ID (envPage env)
      | Some previous \<Rightarrow> 3 / 10 * samplePageBrightness OVERLAY_ID (envPage env) + 7 / 10 * previous)"

definition cycleDimAmount :: "Env \<Rightarrow> Control \<Rightarrow> real" where
  "cycleDimAmount env c =
     (let effectiveSettings = getEffectiveSettings (settings c) (envHostname env) in
      if isWhitelisted (settings c) (envHostname env) then dimIntensity effectiveSettings
      else calculateDimAmount (cycleSmoothed env c) (brightnessThreshold effectiveSettings)
             (dimIntensity effectiveSettings) (dynamicMode effectiveSettings))"

text \<open>An environment for the examples: a host name, a page of one colour, a time.\<close>

definition exampleEnv :: "string \<Rightarrow> string \<Rightarrow> real \<Rightarrow> Env" where
  "exampleEnv host color now =
     \<lparr>envHostname = host, envPage = uniformPage OVERLAY_ID color, envNow = now\<rparr>"

section \<open>Theorems\<close>

lemma clamp_range: "lo \<le> hi \<Longrightarrow> lo \<le> clamp v lo hi \<and> clamp v lo hi \<le> hi"
  by (simp add: clamp_def)

lemma clamp_unit [simp]: "0 \<le> clamp v 0 1" "clamp v 0 1 \<le> 1"
  by (simp_all add: clamp_def)

lemma clamp_id: "lo \<le> v \<Longrightarrow> v \<le> hi \<Longrightarrow> clamp v lo hi = v"
  by (simp add: clamp_def)

subsection \<open>C1\<close>

text \<open>
  Claim C1. \<open>calculateDimAmount\<close> equals the reference piecewise definition for every
  brightness, threshold, maximum intensity and mode: 0 when the brightness is at most the
  threshold; otherwise the maximum intensity when the mode is not dynamic; otherwise
  \<open>maxIntensity \<sqdot> (brightness - threshold) / (1 - threshold)\<close>, except that a zero or
  negative divisor gives the maximum intensity.
\<close>

theorem calculateDimAmount_refines_spec:
  "calculateDimAmount brightness threshold maxIntensity dynamic =
   computeDimAmount_spec brightness threshold maxIntensity dynamic"
  by (simp add: calculateDimAmount_def computeDimAmount_spec_def Let_def)

theorem calculateDimAmount_refines_spec_witness:
  "calculateDimAmount (8/10) (6/10) (4/10) True = 1/5
   \<and> calculateDimAmount (6/10) (6/10) (4/10) True = 0
   \<and> calculateDimAmount (8/10) (6/10) (4/10) False = 4/10
   \<and> calculateDimAmount 2 1 (4/10) True = 4/10"
  using calculateDimAmount_refines_spec [of "8/10" "6/10" "4/10" True]
    calculateDimAmount_refines_spec [of "6/10" "6/10" "4/10" True]
    calculateDimAmount_refines_spec [of "8/10" "6/10" "4/10" False]
    calculateDimAmount_refines_spec [of 2 1 "4/10" True]
  by (simp add: computeDimAmount_spec_def)

subsection \<open>C5\<close>

lemma str_includes_contains: "str_includes s t = contains s t"
proof (induction s)
  case Nil
  then show ?case by (auto simp: contains_def)
next
  case (Cons c s)
  show ?case
  proof
    assume "str_includes (c # s) t"
    then consider "prefix t (c # s)" | "str_includes s t" by auto
    then show "contains (c # s) t"
    proof cases
      case 1
      then obtain r where "c # s = t @ r" by (auto simp: prefix_def)
      then have "c # s = [] @ t @ r" by simp
      then show ?thesis unfolding contains_def by blast
    next
      case 2
      with Cons obtain b a where "s = b @ t @ a" by (auto simp: contains_def)
      then have "c # s = (c # b) @ t @ a" by simp
      then show ?thesis unfolding contains_def by blast
    qed
  next
    assume "contains (c # s) t"
    then obtain b a where ba: "c # s = b @ t @ a" by (auto simp: contains_def)
    show "str_includes (c # s) t"
    proof (cases b)
      case Nil
      with ba have "prefix t (c # s)" by (simp add: prefix_def)
      then show ?thesis by simp
    next
      case (Cons x b')
      with ba have "s = b' @ t @ a" by simp
      then have "contains s t" unfolding contains_def by blast
      with Cons.IH show ?thesis by simp
    qed
  qed
qed

text \<open>
  Claim C5. For non-empty strings \<open>matchesPattern\<close> holds exactly when the host name
  contains the pattern as a substring or the pattern contains the host name; it is false as
  soon as one of the two strings is empty. \<open>matchesAnyPattern\<close> holds exactly when some
  pattern of the list matches, so the empty list matches no host name. The two examples of the
  specification evaluate as it says.
\<close>

theorem matchesPattern_substring_either_way:
  "(hostname \<noteq> [] \<and> pattern \<noteq> [] \<longrightarrow>
      matchesPattern hostname pattern = (contains hostname pattern \<or> contains pattern hostname))
   \<and> (hostname = [] \<or> pattern = [] \<longrightarrow> \<not> matchesPattern hostname pattern)
   \<and> matchesAnyPattern hostname patterns = (\<exists>p \<in> set patterns. matchesPattern hostname p)
   \<and> \<not> matchesAnyPattern hostname []
   \<and> matchesPattern ''www.example.com'' ''example.com''
   \<and> \<not> matchesPattern ''google.com'' ''facebook.com''"
  by (simp add: matchesPattern_def matchesAnyPattern_def str_includes_contains [symmetric]
        list_ex_iff)

theorem matchesPattern_substring_either_way_witness:
  "matchesPattern ''sub.example.com'' ''example'' = True
   \<and> contains ''sub.example.com'' ''example''
   \<and> matchesPattern [] ''example.com'' = False
   \<and> matchesAnyPattern ''mail.google.com'' [''example.com'', ''google''] = True"
proof -
  have ex: "str_includes ''sub.example.com'' ''example''"
    by simp
  have "\<exists>p \<in> set [''example.com'', ''google'']. matchesPattern ''mail.google.com'' p"
    by (simp add: matchesPattern_def)
  with ex show ?thesis
    using matchesPattern_substring_either_way [of "''sub.example.com''" "''example''" "[]"]
      matchesPattern_substring_either_way [of "[]" "''example.com''" "[]"]
      matchesPattern_substring_either_way
        [of "''mail.google.com''" "''example''" "[''example.com'', ''google'']"]
    by (simp add: str_includes_contains)
qed

subsection \<open>C6\<close>

lemma calculateDimAmount_mono:
  assumes "threshold < 1" "0 \<le> maxIntensity" "threshold < b1" "b1 \<le> b2"
  shows "calculateDimAmount b1 threshold maxIntensity True
         \<le> calculateDimAmount b2 threshold maxIntensity True"
  using assms by (simp add: calculateDimAmount_def Let_def divide_right_mono mult_left_mono)

lemma calculateDimAmount_at_threshold:
  assumes t: "threshold < 1"
  shows "((\<lambda>b. calculateDimAmount b threshold maxIntensity True) \<longlongrightarrow> 0) (at_right threshold)"
proof -
  let ?line = "\<lambda>b. maxIntensity * ((b - threshold) / (1 - threshold))"
  have "(?line \<longlongrightarrow> maxIntensity * ((threshold - threshold) / (1 - threshold))) (at_right threshold)"
    by (intro tendsto_intros) (use t in auto)
  then have "(?line \<longlongrightarrow> 0) (at_right threshold)"
    by simp
  moreover have "eventually (\<lambda>b. ?line b = calculateDimAmount b threshold maxIntensity True)
                   (at_right threshold)"
    unfolding eventually_at_right_field using t
    by (intro exI [of _ "threshold + 1"]) (auto simp: calculateDimAmount_def Let_def)
  ultimately show ?thesis
    by (rule Lim_transform_eventually)
qed

text \<open>
  Claim C6. The maximum intensity is the \<open>dimIntensity\<close> of the settings, a number from 0 to
  1. For every threshold below 1, in dynamic mode: for every maximum intensity that is not
  negative the dim amount is monotonically non-decreasing in the brightness on
  \<open>threshold < brightness \<le> 1\<close>; it equals the maximum intensity at brightness 1 and tends
  to 0 as the brightness approaches the threshold from above.
\<close>

theorem calculateDimAmount_dynamic_shape:
  assumes "threshold < 1"
  shows "(0 \<le> maxIntensity \<longrightarrow>
           (\<forall>b1 b2. threshold < b1 \<and> b1 \<le> b2 \<and> b2 \<le> 1 \<longrightarrow>
              calculateDimAmount b1 threshold maxIntensity True
              \<le> calculateDimAmount b2 threshold maxIntensity True))
         \<and> calculateDimAmount 1 threshold maxIntensity True = maxIntensity
         \<and> ((\<lambda>b. calculateDimAmount b threshold maxIntensity True) \<longlongrightarrow> 0)
              (at_right threshold)"
proof (intro conjI impI allI)
  fix b1 b2
  assume "0 \<le> maxIntensity" "threshold < b1 \<and> b1 \<le> b2 \<and> b2 \<le> 1"
  with assms show "calculateDimAmount b1 threshold maxIntensity True
                   \<le> calculateDimAmount b2 threshold maxIntensity True"
    by (simp add: calculateDimAmount_mono)
next
  from assms show "calculateDimAmount 1 threshold maxIntensity True = maxIntensity"
    by (simp add: calculateDimAmount_def Let_def)
next
  from assms show "((\<lambda>b. calculateDimAmount b threshold maxIntensity True) \<longlongrightarrow> 0)
                     (at_right threshold)"
    by (rule calculateDimAmount_at_threshold)
qed

theorem calculateDimAmount_dynamic_shape_witness:
  "(6/10 :: real) < 1 \<and> (0 :: real) \<le> 1/2
   \<and> calculateDimAmount (7/10) (6/10) (1/2) True \<le> calculateDimAmount (9/10) (6/10) (1/2) True
   \<and> calculateDimAmount 1 (6/10) (1/2) True = 1/2
   \<and> ((\<lambda>b. calculateDimAmount b (6/10) (1/2) True) \<longlongrightarrow> 0) (at_right (6/10))"
proof -
  have t: "(6/10 :: real) < 1"
    by simp
  note shape = calculateDimAmount_dynamic_shape [OF t, of "1/2"]
  from shape have "\<forall>b1 b2. 6/10 < b1 \<and> b1 \<le> b2 \<and> b2 \<le> 1 \<longrightarrow>
      calculateDimAmount b1 (6/10) (1/2) True \<le> calculateDimAmount b2 (6/10) (1/2) True"
    by simp
  from this [rule_format, of "7/10" "9/10"]
  have "calculateDimAmount (7/10) (6/10) (1/2) True
        \<le> calculateDimAmount (9/10) (6/10) (1/2) True"
    by simp
  with shape show ?thesis
    by simp
qed

subsection \<open>Rounding: values\<close>

lemma floor_log2:
  assumes "2 powi k \<le> x" "x < 2 powi (k + 1)"
  shows "\<lfloor>log 2 x\<rfloor> = k"
proof -
  have pos: "0 < x"
    using assms(1) by (smt (verit) zero_less_power_int)
  have "2 powr (of_int k) \<le> x"
    using assms(1) by (simp add: powr_real_of_int')
  then have "of_int k \<le> log 2 x"
    using pos by (simp add: le_log_iff)
  moreover have "x < 2 powr (of_int (k + 1))"
    using assms(2) by (simp add: powr_real_of_int' del: of_int_add)
  then have "log 2 x < of_int (k + 1)"
    using pos by (simp add: log_less_iff del: of_int_add)
  ultimately show ?thesis
    by linarith
qed

lemma roundDouble_binade:
  assumes "2 powi k \<le> \<bar>x\<bar>" "\<bar>x\<bar> < 2 powi (k + 1)"
  shows "roundDouble x = of_int (roundEven (x / 2 powi (k - 52))) * 2 powi (k - 52)"
proof -
  have "x \<noteq> 0"
    using assms(1) by (smt (verit) zero_less_power_int abs_zero)
  then show ?thesis
    by (simp add: roundDouble_def Let_def floor_log2 [OF assms])
qed

lemma roundDouble_one: "roundDouble 1 = 1"
  by (subst roundDouble_binade [where k = 0]) (simp_all add: roundEven_def Let_def power_int_minus)

lemma roundDouble_500: "roundDouble 500 = 500"
  by (subst roundDouble_binade [where k = 8]) (simp_all add: roundEven_def Let_def power_int_minus)

lemma roundDouble_250: "roundDouble 250 = 250"
  by (subst roundDouble_binade [where k = 7]) (simp_all add: roundEven_def Let_def power_int_minus)

lemma roundDouble_half: "roundDouble (1 / 2) = 1 / 2"
  by (subst roundDouble_binade [where k = "- 1"]) (simp_all add: roundEven_def Let_def power_int_minus)

lemma roundDouble_5_100: "roundDouble (5 / 100) = 3602879701896397 / 2 ^ 56"
  by (subst roundDouble_binade [where k = "- 5"]) (simp_all add: roundEven_def Let_def power_int_minus)

lemma roundDouble_3_10: "roundDouble (3 / 10) = 5404319552844595 / 2 ^ 54"
  by (subst roundDouble_binade [where k = "- 2"]) (simp_all add: roundEven_def Let_def power_int_minus)

lemma roundDouble_9_10: "roundDouble (9 / 10) = 8106479329266893 / 2 ^ 53"
  by (subst roundDouble_binade [where k = "- 1"]) (simp_all add: roundEven_def Let_def power_int_minus)

text \<open>The three roundings of the last frame from 0.3 to 0.9.\<close>

lemma roundDouble_difference:
  "roundDouble (8106479329266893 / 2 ^ 53 - 5404319552844595 / 2 ^ 54) = 5404319552844596 / 2 ^ 53"
  by (subst roundDouble_binade [where k = "- 1"]) (simp_all add: roundEven_def Let_def power_int_minus)

lemma roundDouble_product:
  "roundDouble (5404319552844596 / 2 ^ 53 * 1) = 5404319552844596 / 2 ^ 53"
  by (subst roundDouble_binade [where k = "- 1"]) (simp_all add: roundEven_def Let_def power_int_minus)

lemma roundDouble_sum:
  "roundDouble (5404319552844595 / 2 ^ 54 + 5404319552844596 / 2 ^ 53) = 8106479329266894 / 2 ^ 53"
  by (subst roundDouble_binade [where k = "- 1"]) (simp_all add: roundEven_def Let_def power_int_minus)

lemma roundDouble_1_20: "roundDouble (1 / 20) = 3602879701896397 / 2 ^ 56"
  using roundDouble_5_100 by simp

lemma roundDouble_1_100: "roundDouble (1 / 100) = 5764607523034235 / 2 ^ 59"
  by (subst roundDouble_binade [where k = "- 7"]) (simp_all add: roundEven_def Let_def power_int_minus)

lemma roundDouble_zero: "roundDouble 0 = 0"
  by (simp add: roundDouble_def)

lemmas rounded_values = roundDouble_zero roundDouble_one roundDouble_500 roundDouble_250
  roundDouble_half roundDouble_1_20 roundDouble_1_100

lemma run_append:
  "run (xs @ ys) e = (case run xs e of None \<Rightarrow> None | Some e' \<Rightarrow> run ys e')"
  by (induction xs arbitrary: e) (simp_all split: option.splits)

subsection \<open>The transition engine: shared facts\<close>

lemma dom_single_clear: "dom m = {k} \<Longrightarrow> m(k := None) = Map.empty"
  by (auto simp: fun_eq_iff dom_def)

lemma dom_single_key: "dom m = {k} \<Longrightarrow> m k' = Some a \<Longrightarrow> k' = k"
  by (auto simp: dom_def)

lemma dom_single_clear_other: "dom m = {k} \<Longrightarrow> m k' = Some a \<Longrightarrow> m(k' := None) = Map.empty"
  using dom_single_clear dom_single_key by metis

lemma idle_or_animating_create: "idle createEngine"
  by (simp add: idle_def createEngine_def createAnimationState_def)

lemma idle_cancelAnimation: "idle e \<or> animating e \<Longrightarrow> idle (cancelAnimation e)"
  by (auto simp: idle_def animating_def cancelAnimation_def cancelAnimationFrame_def
      dom_single_clear split: option.splits)

lemma cancelAnimation_idem: "cancelAnimation (cancelAnimation e) = cancelAnimation e"
  by (simp add: cancelAnimation_def cancelAnimationFrame_def split: option.splits)

lemma frameId_cancelAnimation: "frameId (state (cancelAnimation e)) = None"
  by (simp add: cancelAnimation_def cancelAnimationFrame_def split: option.splits)

lemma wf_animateDimLevel:
  "idle e \<or> animating e \<Longrightarrow> idle (animateDimLevel e r d n) \<or> animating (animateDimLevel e r d n)"
  by (auto simp: idle_def animating_def animateDimLevel_def Let_def requestAnimationFrame_def
      cancelAnimation_def cancelAnimationFrame_def dom_single_clear split: option.splits)

lemma wf_setDimLevelImmediate:
  "idle e \<or> animating e \<Longrightarrow> idle (setDimLevelImmediate e l)"
  by (auto simp: idle_def animating_def setDimLevelImmediate_def Let_def
      cancelAnimation_def cancelAnimationFrame_def dom_single_clear split: option.splits)

lemma wf_runFrame:
  "idle e \<or> animating e \<Longrightarrow> runFrame k t e = Some e' \<Longrightarrow> idle e' \<or> animating e'"
  by (auto simp: idle_def animating_def runFrame_def animate_def Let_def requestAnimationFrame_def
      dom_single_clear_other split: option.splits if_splits)

lemma wf_exec: "idle e \<or> animating e \<Longrightarrow> exec x e = Some e' \<Longrightarrow> idle e' \<or> animating e'"
  by (cases x) (use wf_animateDimLevel wf_setDimLevelImmediate idle_cancelAnimation wf_runFrame in auto)

lemma wf_run: "idle e \<or> animating e \<Longrightarrow> run xs e = Some e' \<Longrightarrow> idle e' \<or> animating e'"
proof (induction xs arbitrary: e)
  case Nil
  then show ?case by simp
next
  case (Cons x xs)
  then obtain e1 where e1: "exec x e = Some e1" "run xs e1 = Some e'"
    by (auto split: option.splits)
  from wf_exec [OF Cons.prems(1) e1(1)] Cons.IH e1(2) show ?case by blast
qed

lemma levelsInRange_cancelAnimation: "levelsInRange e \<Longrightarrow> levelsInRange (cancelAnimation e)"
  by (simp add: levelsInRange_def cancelAnimation_def cancelAnimationFrame_def split: option.splits)

lemma levelsInRange_animateDimLevel: "levelsInRange e \<Longrightarrow> levelsInRange (animateDimLevel e r d n)"
  by (simp add: levelsInRange_def animateDimLevel_def Let_def requestAnimationFrame_def
      cancelAnimation_def cancelAnimationFrame_def split: option.splits)

lemma levelsInRange_setDimLevelImmediate: "levelsInRange e \<Longrightarrow> levelsInRange (setDimLevelImmediate e l)"
  by (simp add: levelsInRange_def setDimLevelImmediate_def Let_def
      cancelAnimation_def cancelAnimationFrame_def split: option.splits)

lemma levelsInRange_animate: "levelsInRange e \<Longrightarrow> animate a t e = Some e' \<Longrightarrow> levelsInRange e'"
  by (auto simp: levelsInRange_def animate_def Let_def requestAnimationFrame_def
      split: option.splits if_splits)

lemma levelsInRange_runFrame: "levelsInRange e \<Longrightarrow> runFrame k t e = Some e' \<Longrightarrow> levelsInRange e'"
  unfolding runFrame_def
  by (auto split: option.splits dest!: levelsInRange_animate [rotated] simp: levelsInRange_def)

lemma levelsInRange_exec: "levelsInRange e \<Longrightarrow> exec x e = Some e' \<Longrightarrow> levelsInRange e'"
  by (cases x) (auto simp: levelsInRange_cancelAnimation levelsInRange_animateDimLevel
      levelsInRange_setDimLevelImmediate levelsInRange_runFrame)

lemma levelsInRange_run: "levelsInRange e \<Longrightarrow> run xs e = Some e' \<Longrightarrow> levelsInRange e'"
  by (induction xs arbitrary: e) (auto split: option.splits dest: levelsInRange_exec)

lemma exec_total: "(\<forall>k t. x \<noteq> Frame k t) \<Longrightarrow> \<exists>e'. exec x e = Some e'"
  by (cases x) auto

lemma runFrame_total: "(\<forall>a. scheduled e k = Some a \<longrightarrow> duration a \<noteq> 0) \<Longrightarrow> \<exists>e'. runFrame k t e = Some e'"
  by (auto simp: runFrame_def animate_def progressOf_def Let_def requestAnimationFrame_def split: option.splits)

lemma frames_idle: "frameId (state e) = None \<Longrightarrow> frames ts e = Some e"
  by (induction ts) auto

lemmas engine_defs = animateDimLevel_def cancelAnimation_def cancelAnimationFrame_def
      requestAnimationFrame_def createEngine_def createAnimationState_def clamp_def Let_def
      runFrame_def animate_def progressOf_def setDimLevelImmediate_def


lemma atRest_create: "atRest createEngine"
  by (simp add: atRest_def idle_def createEngine_def createAnimationState_def)

lemma atRest_setDimLevelImmediate:
  "idle e \<or> animating e \<Longrightarrow> atRest (setDimLevelImmediate e level)"
  using wf_setDimLevelImmediate [of e level]
  by (simp add: atRest_def) (simp add: setDimLevelImmediate_def Let_def)

lemma atRest_cancelAnimation: "atRest e \<Longrightarrow> cancelAnimation e = e"
  by (simp add: atRest_def idle_def cancelAnimation_def)

lemma atRest_runFrame: "atRest e \<Longrightarrow> runFrame k t e = Some e"
  by (simp add: atRest_def idle_def runFrame_def)

lemma animateDimLevel_same_or_animating:
  "idle e \<or> animating e \<Longrightarrow>
   animateDimLevel e requested dur now = e \<or> animating (animateDimLevel e requested dur now)"
  by (auto simp: idle_def animating_def animateDimLevel_def Let_def requestAnimationFrame_def
      cancelAnimation_def cancelAnimationFrame_def dom_single_clear split: option.splits)

lemma startsNothing_exec: "atRest e \<Longrightarrow> startsNothing e x \<Longrightarrow> exec x e = Some e"
  by (cases x) (simp_all add: atRest_cancelAnimation atRest_runFrame animateDimLevel_def Let_def)

lemma startsNothing_run: "atRest e \<Longrightarrow> list_all (startsNothing e) xs \<Longrightarrow> run xs e = Some e"
  by (induction xs) (simp_all add: startsNothing_exec)

subsection \<open>C4\<close>

text \<open>
  Claim C4 says that an animation settles with the current level equal to the target. The
  last frame computes \<open>startLevel + (targetLevel - startLevel) \<sqdot> 1\<close> in double arithmetic,
  which need not give the target back. From rest at the double written 0.3, a request for the
  double written 0.9 over 500 milliseconds is outside the 5 percent and starts an animation;
  the frame at 500 milliseconds ends it with the handle cleared and nothing requested, the
  target at 0.9 and the current level at 0.9000000000000001, the next double; whatever frames
  follow, the engine stays there.
\<close>

theorem animation_ends_beside_target:
  "roundDouble (3 / 10) = 5404319552844595 / 2 ^ 54
   \<and> roundDouble (9 / 10) = 8106479329266893 / 2 ^ 53
   \<and> atRest (setDimLevelImmediate createEngine (roundDouble (3 / 10)))
   \<and> animating (animateDimLevel (setDimLevelImmediate createEngine (roundDouble (3 / 10)))
                  (roundDouble (9 / 10)) 500 0)
   \<and> (\<exists>e'. (\<forall>ts. frames (500 # ts)
                   (animateDimLevel (setDimLevelImmediate createEngine (roundDouble (3 / 10)))
                      (roundDouble (9 / 10)) 500 0) = Some e')
          \<and> idle e'
          \<and> targetLevel (state e') = 8106479329266893 / 2 ^ 53
          \<and> currentLevel (state e') = 8106479329266894 / 2 ^ 53)"
proof -
  define s where "s = roundDouble (3 / 10)"
  define t where "t = roundDouble (9 / 10)"
  define d where "d = roundDouble (t - s)"
  define p where "p = roundDouble (d * 1)"
  define c where "c = roundDouble (s + p)"
  have s: "s = 5404319552844595 / 2 ^ 54"
    unfolding s_def by (rule roundDouble_3_10)
  have t: "t = 8106479329266893 / 2 ^ 53"
    unfolding t_def by (rule roundDouble_9_10)
  have d: "d = 5404319552844596 / 2 ^ 53"
    unfolding d_def s t by (rule roundDouble_difference)
  have p: "p = 5404319552844596 / 2 ^ 53"
    unfolding p_def d by (rule roundDouble_product)
  have c: "c = 8106479329266894 / 2 ^ 53"
    unfolding c_def s p by (rule roundDouble_sum)
  have far: "\<not> \<bar>d\<bar> < roundDouble (5 / 100)"
    unfolding d roundDouble_5_100 by simp
  have levels: "clamp s 0 1 = s" "clamp t 0 1 = t" "clamp c 0 1 = c"
    unfolding s t c by (simp_all add: clamp_def)
  have last: "roundDouble d = p" "roundDouble (s + p) = c"
    by (simp_all add: p_def c_def)
  let ?e0 = "setDimLevelImmediate createEngine s"
  let ?e1 = "animateDimLevel ?e0 t 500 0"
  have rest: "atRest ?e0"
    by (rule atRest_setDimLevelImmediate) (simp add: idle_or_animating_create)
  have e0: "state ?e0 = \<lparr>frameId = None, currentLevel = s, targetLevel = s\<rparr>"
    "scheduled ?e0 = Map.empty" "nextHandle ?e0 = 1"
    by (simp_all add: setDimLevelImmediate_def cancelAnimation_def createEngine_def
        createAnimationState_def Let_def levels)
  have e1: "state ?e1 = \<lparr>frameId = Some 1, currentLevel = s, targetLevel = t\<rparr>"
    "scheduled ?e1 = [1 \<mapsto> \<lparr>startLevel = s, startTime = 0, duration = 500\<rparr>]"
    using far
    by (simp_all add: animateDimLevel_def cancelAnimation_def requestAnimationFrame_def Let_def
        e0 levels d_def)
  from e1 have moving: "animating ?e1"
    by (simp add: animating_def)
  have "\<exists>e'. runFrame 1 500 ?e1 = Some e' \<and> idle e'
          \<and> targetLevel (state e') = t \<and> currentLevel (state e') = c"
    by (simp add: runFrame_def animate_def progressOf_def Let_def e1 roundDouble_500
        roundDouble_one idle_def d_def [symmetric] last levels)
  then obtain e' where e': "runFrame 1 500 ?e1 = Some e'" "idle e'"
    "targetLevel (state e') = t" "currentLevel (state e') = c"
    by blast
  have "frames (500 # ts) ?e1 = Some e'" for ts
    using e'(1,2) e1(1) by (simp add: frames_idle idle_def)
  with e'(2-4) rest moving have
    "atRest ?e0 \<and> animating ?e1
     \<and> (\<exists>e'. (\<forall>ts. frames (500 # ts) ?e1 = Some e') \<and> idle e'
            \<and> targetLevel (state e') = t \<and> currentLevel (state e') = c)"
    by blast
  then show ?thesis
    unfolding s_def [symmetric] t_def [symmetric]
    using s t c by (simp only: simp_thms)
qed

theorem animation_ends_beside_target_witness:
  "\<exists>e'. frames [500, 516, 533]
          (animateDimLevel (setDimLevelImmediate createEngine (roundDouble (3 / 10)))
             (roundDouble (9 / 10)) 500 0) = Some e'
        \<and> idle e'
        \<and> currentLevel (state e') \<noteq> targetLevel (state e')"
proof -
  from animation_ends_beside_target obtain e' where
    "\<forall>ts. frames (500 # ts)
            (animateDimLevel (setDimLevelImmediate createEngine (roundDouble (3 / 10)))
               (roundDouble (9 / 10)) 500 0) = Some e'"
    "idle e'" "targetLevel (state e') = 8106479329266893 / 2 ^ 53"
    "currentLevel (state e') = 8106479329266894 / 2 ^ 53"
    by blast
  then have "frames [500, 516, 533]
          (animateDimLevel (setDimLevelImmediate createEngine (roundDouble (3 / 10)))
             (roundDouble (9 / 10)) 500 0) = Some e'
        \<and> idle e' \<and> currentLevel (state e') \<noteq> targetLevel (state e')"
    by simp
  then show ?thesis
    by blast
qed

subsection \<open>C9\<close>

text \<open>
  Claim C9, as stated, fails at a cancel in mid-flight: \<open>cancelAnimation\<close> clears the handle
  and leaves both levels as they are. After \<open>animateDimLevel\<close> towards 1 on a new engine and a
  \<open>cancelAnimation\<close>, the handle is null, the current level is 0 and the target is 1.
\<close>

theorem cancel_mid_flight_counterexample:
  "run [AnimateDimLevel 1 500 0, CancelAnimation] createEngine
     = Some (cancelAnimation (animateDimLevel createEngine 1 500 0))
   \<and> frameId (state (cancelAnimation (animateDimLevel createEngine 1 500 0))) = None
   \<and> currentLevel (state (cancelAnimation (animateDimLevel createEngine 1 500 0))) = 0
   \<and> targetLevel (state (cancelAnimation (animateDimLevel createEngine 1 500 0))) = 1"
  by (simp add: animateDimLevel_def cancelAnimation_def cancelAnimationFrame_def
      requestAnimationFrame_def createEngine_def createAnimationState_def clamp_def Let_def
      rounded_values)

text \<open>
  Claim C9, amended. A new engine is at rest: no handle, nothing requested, the current level
  equal to the target. So is every engine after \<open>setDimLevelImmediate\<close>. An engine at rest
  stays as it is through every \<open>cancelAnimation\<close>, every frame and every \<open>animateDimLevel\<close>
  that starts no animation, in any number and order, and an \<open>animateDimLevel\<close> either leaves
  it as it is or leaves it Animating. Every state reached from a new engine by any sequence of
  the operations and frames holds either no handle and no requested callback or the handle of
  its one requested callback, and \<open>cancelAnimation\<close> leaves it with neither. On every engine
  \<open>cancelAnimation\<close> clears the handle, keeps both levels and is idempotent. What the levels
  are once an animation has run to its end is the subject of C4 and is left open here.
\<close>

theorem rest_lasts_until_an_animation_starts:
  "atRest createEngine
   \<and> (idle e \<or> animating e \<longrightarrow> atRest (setDimLevelImmediate e level))
   \<and> (atRest e \<longrightarrow>
        cancelAnimation e = e
        \<and> runFrame k t e = Some e
        \<and> (animateDimLevel e requested dur now = e
            \<or> animating (animateDimLevel e requested dur now))
        \<and> (list_all (startsNothing e) ops \<longrightarrow> run ops e = Some e))
   \<and> (run ops0 createEngine = Some e1 \<longrightarrow>
        (idle e1 \<or> animating e1)
        \<and> idle (cancelAnimation e1)
        \<and> atRest (setDimLevelImmediate e1 level)
        \<and> (list_all (startsNothing (setDimLevelImmediate e1 level)) ops \<longrightarrow>
             run (ops0 @ SetDimLevelImmediate level # ops) createEngine
               = Some (setDimLevelImmediate e1 level)))
   \<and> frameId (state (cancelAnimation e0)) = None
   \<and> currentLevel (state (cancelAnimation e0)) = currentLevel (state e0)
   \<and> targetLevel (state (cancelAnimation e0)) = targetLevel (state e0)
   \<and> cancelAnimation (cancelAnimation e0) = cancelAnimation e0"
proof (intro conjI impI)
  show "atRest createEngine"
    by (rule atRest_create)
next
  assume "idle e \<or> animating e"
  then show "atRest (setDimLevelImmediate e level)"
    by (rule atRest_setDimLevelImmediate)
next
  assume r: "atRest e"
  then show "cancelAnimation e = e"
    by (rule atRest_cancelAnimation)
  from r show "runFrame k t e = Some e"
    by (rule atRest_runFrame)
  from r have "idle e \<or> animating e"
    by (simp add: atRest_def)
  then show "animateDimLevel e requested dur now = e
             \<or> animating (animateDimLevel e requested dur now)"
    by (rule animateDimLevel_same_or_animating)
  assume "list_all (startsNothing e) ops"
  with r show "run ops e = Some e"
    by (rule startsNothing_run)
next
  assume r: "run ops0 createEngine = Some e1"
  with idle_or_animating_create show wf: "idle e1 \<or> animating e1"
    using wf_run [of createEngine ops0 e1] by simp
  then show "idle (cancelAnimation e1)"
    by (rule idle_cancelAnimation)
  from wf show rest: "atRest (setDimLevelImmediate e1 level)"
    by (rule atRest_setDimLevelImmediate)
  assume "list_all (startsNothing (setDimLevelImmediate e1 level)) ops"
  with rest have "run ops (setDimLevelImmediate e1 level) = Some (setDimLevelImmediate e1 level)"
    by (rule startsNothing_run)
  with r show "run (ops0 @ SetDimLevelImmediate level # ops) createEngine
               = Some (setDimLevelImmediate e1 level)"
    by (simp add: run_append)
next
  show "frameId (state (cancelAnimation e0)) = None"
    by (rule frameId_cancelAnimation)
  show "currentLevel (state (cancelAnimation e0)) = currentLevel (state e0)"
    by (simp add: cancelAnimation_def cancelAnimationFrame_def split: option.splits)
  show "targetLevel (state (cancelAnimation e0)) = targetLevel (state e0)"
    by (simp add: cancelAnimation_def cancelAnimationFrame_def split: option.splits)
  show "cancelAnimation (cancelAnimation e0) = cancelAnimation e0"
    by (rule cancelAnimation_idem)
qed

theorem rest_lasts_until_an_animation_starts_witness:
  "run [AnimateDimLevel 1 500 0, CancelAnimation] createEngine
     = Some (cancelAnimation (animateDimLevel createEngine 1 500 0))
   \<and> list_all
        (startsNothing
           (setDimLevelImmediate (cancelAnimation (animateDimLevel createEngine 1 500 0)) (1 / 2)))
        [CancelAnimation, Frame 1 516, AnimateDimLevel (51 / 100) 500 520, CancelAnimation]
   \<and> atRest (setDimLevelImmediate (cancelAnimation (animateDimLevel createEngine 1 500 0)) (1 / 2))
   \<and> run ([AnimateDimLevel 1 500 0, CancelAnimation] @ SetDimLevelImmediate (1 / 2)
            # [CancelAnimation, Frame 1 516, AnimateDimLevel (51 / 100) 500 520, CancelAnimation])
        createEngine
      = Some (setDimLevelImmediate (cancelAnimation (animateDimLevel createEngine 1 500 0)) (1 / 2))
   \<and> idle (cancelAnimation (cancelAnimation (animateDimLevel createEngine 1 500 0)))"
proof -
  let ?e1 = "cancelAnimation (animateDimLevel createEngine 1 500 0)"
  let ?ops = "[CancelAnimation, Frame 1 516, AnimateDimLevel (51 / 100) 500 520, CancelAnimation]"
  have reach: "run [AnimateDimLevel 1 500 0, CancelAnimation] createEngine = Some ?e1"
    by simp
  have target: "targetLevel (state (setDimLevelImmediate ?e1 (1 / 2))) = 1 / 2"
    by (simp add: setDimLevelImmediate_def Let_def clamp_def)
  have quiet: "list_all (startsNothing (setDimLevelImmediate ?e1 (1 / 2))) ?ops"
    by (simp add: target clamp_def rounded_values)
  note inst = rest_lasts_until_an_animation_starts
         [of _ "1 / 2" _ _ _ _ _ ?ops "[AnimateDimLevel 1 500 0, CancelAnimation]" ?e1]
  from inst reach have rest: "atRest (setDimLevelImmediate ?e1 (1 / 2))"
    and cancelled: "idle (cancelAnimation ?e1)"
    and stay: "list_all (startsNothing (setDimLevelImmediate ?e1 (1 / 2))) ?ops \<longrightarrow>
      run ([AnimateDimLevel 1 500 0, CancelAnimation] @ SetDimLevelImmediate (1 / 2) # ?ops) createEngine
        = Some (setDimLevelImmediate ?e1 (1 / 2))"
    by blast+
  from stay quiet have "run ([AnimateDimLevel 1 500 0, CancelAnimation] @ SetDimLevelImmediate (1 / 2) # ?ops)
      createEngine = Some (setDimLevelImmediate ?e1 (1 / 2))"
    by blast
  with reach quiet rest cancelled show ?thesis
    by blast
qed

subsection \<open>C10\<close>

text \<open>
  Claim C10. A new engine has both levels in \<open>[0, 1]\<close> and has reported nothing. From an
  engine whose levels and reported values are in \<open>[0, 1]\<close>, each operation, for every
  requested level, duration and time, and each frame, leaves them in \<open>[0, 1]\<close>; so does every
  sequence of operations and frames. The three operations always return, and a frame returns
  whenever the duration of its animation is not zero.
\<close>

theorem transition_engine_levels_in_range:
  "levelsInRange createEngine
   \<and> (levelsInRange e \<longrightarrow>
        levelsInRange (animateDimLevel e requested dur now)
        \<and> levelsInRange (setDimLevelImmediate e level)
        \<and> levelsInRange (cancelAnimation e)
        \<and> (\<forall>k t e'. runFrame k t e = Some e' \<longrightarrow> levelsInRange e')
        \<and> (\<forall>ops e'. run ops e = Some e' \<longrightarrow> levelsInRange e'))
   \<and> ((\<forall>k t. x \<noteq> Frame k t) \<longrightarrow> (\<exists>e'. exec x e = Some e'))
   \<and> ((\<forall>a. scheduled e k = Some a \<longrightarrow> duration a \<noteq> 0) \<longrightarrow> (\<exists>e'. runFrame k t e = Some e'))"
proof (intro conjI impI allI)
  show "levelsInRange createEngine"
    by (simp add: levelsInRange_def createEngine_def createAnimationState_def)
next
  assume "\<forall>k t. x \<noteq> Frame k t"
  then show "\<exists>e'. exec x e = Some e'"
    by (rule exec_total)
next
  assume "\<forall>a. scheduled e k = Some a \<longrightarrow> duration a \<noteq> 0"
  then show "\<exists>e'. runFrame k t e = Some e'"
    by (rule runFrame_total)
next
  assume "levelsInRange e"
  then show "levelsInRange (animateDimLevel e requested dur now)"
    by (rule levelsInRange_animateDimLevel)
next
  assume "levelsInRange e"
  then show "levelsInRange (setDimLevelImmediate e level)"
    by (rule levelsInRange_setDimLevelImmediate)
next
  assume "levelsInRange e"
  then show "levelsInRange (cancelAnimation e)"
    by (rule levelsInRange_cancelAnimation)
next
  fix k t e'
  assume "levelsInRange e" "runFrame k t e = Some e'"
  then show "levelsInRange e'"
    by (rule levelsInRange_runFrame)
next
  fix ops e'
  assume "levelsInRange e" "run ops e = Some e'"
  then show "levelsInRange e'"
    by (rule levelsInRange_run)
qed

theorem transition_engine_levels_in_range_witness:
  "levelsInRange createEngine
   \<and> levelsInRange (animateDimLevel createEngine (3/2) 500 0)
   \<and> levelsInRange (setDimLevelImmediate createEngine (- 2))
   \<and> levelsInRange (cancelAnimation createEngine)
   \<and> (\<exists>e'. run [AnimateDimLevel (3/2) 500 0, Frame 1 250, SetDimLevelImmediate 7] createEngine = Some e'
          \<and> levelsInRange e')"
proof -
  note t = transition_engine_levels_in_range [of createEngine]
  have c: "levelsInRange createEngine"
    using t by blast
  have "\<exists>e'. run [AnimateDimLevel (3/2) 500 0, Frame 1 250, SetDimLevelImmediate 7] createEngine = Some e'"
    by (simp add: engine_defs rounded_values)
  then obtain e' where e': "run [AnimateDimLevel (3/2) 500 0, Frame 1 250, SetDimLevelImmediate 7] createEngine = Some e'"
    by blast
  with c t have "levelsInRange e'"
    by blast
  with c e' t [of "3/2" 500 0 "- 2"] show ?thesis
    by blast
qed

subsection \<open>Colour parsing: shared facts\<close>

lemmas color_defs = getColorBrightness_def matchHere_def matchTail_def stripPrefix_def isDigit_def isSpace_def
  isDigitOrDot_def parseInt_def digitValue_def Let_def

lemma digit_not_space: "isDigit c \<Longrightarrow> \<not> isSpace c"
  by (auto simp: isDigit_def isSpace_def)

lemma digitOrDot_not_space: "isDigitOrDot c \<Longrightarrow> \<not> isSpace c"
  by (auto simp: isDigitOrDot_def isDigit_def isSpace_def)

lemma not_digit_punct [simp]: "\<not> isDigit CHR '',''" "\<not> isDigit CHR '')''"
  "\<not> isDigitOrDot CHR '')''"
  by (simp_all add: isDigit_def isDigitOrDot_def)

lemma takeWhile_run:
  "list_all P xs \<Longrightarrow> \<not> P c \<Longrightarrow> takeWhile P (xs @ c # rest) = xs"
  by (induction xs) auto

lemma dropWhile_run:
  "list_all P xs \<Longrightarrow> \<not> P c \<Longrightarrow> dropWhile P (xs @ c # rest) = c # rest"
  by (induction xs) auto

lemma dropWhile_spaces:
  "list_all isSpace w \<Longrightarrow> xs \<noteq> [] \<Longrightarrow> \<not> isSpace (hd xs) \<Longrightarrow> dropWhile isSpace (w @ xs @ rest) = xs @ rest"
  by (induction w) (auto simp: neq_Nil_conv)

lemma hd_digits: "digits ds \<Longrightarrow> \<not> isSpace (hd ds)"
  by (cases ds) (auto simp: digits_def digit_not_space)

lemma matchHere_rgbText_then:
  assumes d: "digits ds1" "digits ds2" "digits ds3" and w: "spaces w1" "spaces w2"
    and a: "alphaText fourth"
  shows "matchHere (rgbText withA ds1 w1 ds2 w2 ds3 fourth @ after) = Some (ds1, ds2, ds3)"
proof -
  define tail where
    "tail = (case fourth of None \<Rightarrow> [] | Some (w3, alpha) \<Rightarrow> '','' @ w3 @ alpha) @ '')'' @ after"
  define rest3 where "rest3 = ds3 @ tail"
  define rest2 where "rest2 = ds2 @ '','' @ w2 @ rest3"
  define rest1 where "rest1 = ds1 @ '','' @ w1 @ rest2"
  let ?s = "rgbText withA ds1 w1 ds2 w2 ds3 fourth @ after"
  have whole: "?s = (if withA then ''rgba'' else ''rgb'') @ ''('' @ rest1"
    by (simp add: rgbText_def rest1_def rest2_def rest3_def tail_def)
  have open_paren: "stripPrefix ''('' (case stripPrefix ''a'' (drop 3 ?s) of
       None \<Rightarrow> drop 3 ?s | Some r \<Rightarrow> r) = Some rest1"
    by (simp add: whole stripPrefix_def)
  have g1: "takeWhile isDigit rest1 = ds1" "dropWhile isDigit rest1 = '','' @ w1 @ rest2"
    using d(1) by (simp_all add: rest1_def digits_def takeWhile_run dropWhile_run)
  have s6: "dropWhile isSpace (w1 @ rest2) = rest2"
    using w(1) d(2) hd_digits [OF d(2)] unfolding rest2_def
    by (simp add: spaces_def digits_def dropWhile_spaces)
  have g2: "takeWhile isDigit rest2 = ds2" "dropWhile isDigit rest2 = '','' @ w2 @ rest3"
    using d(2) by (simp_all add: rest2_def digits_def takeWhile_run dropWhile_run)
  have s9: "dropWhile isSpace (w2 @ rest3) = rest3"
    using w(2) d(3) hd_digits [OF d(3)] unfolding rest3_def
    by (simp add: spaces_def digits_def dropWhile_spaces)
  have tail_cases: "tail = '')'' @ after
      \<or> (\<exists>w3 alpha. tail = '','' @ w3 @ alpha @ '')'' @ after \<and> spaces w3
            \<and> alpha \<noteq> [] \<and> list_all isDigitOrDot alpha)"
    using a by (auto simp: tail_def alphaText_def split: option.splits)
  then have "tail \<noteq> [] \<and> \<not> isDigit (hd tail)"
    by (elim disjE exE conjE) simp_all
  then obtain c trest where tl: "tail = c # trest" "\<not> isDigit c"
    by (cases tail) simp_all
  have g3: "takeWhile isDigit rest3 = ds3" "dropWhile isDigit rest3 = tail"
    using d(3) tl by (simp_all add: rest3_def digits_def takeWhile_run dropWhile_run)
  have fin: "matchTail tail"
    using tail_cases
  proof
    assume "tail = '')'' @ after"
    then show ?thesis
      by (simp add: matchTail_def stripPrefix_def)
  next
    assume "\<exists>w3 alpha. tail = '','' @ w3 @ alpha @ '')'' @ after \<and> spaces w3
      \<and> alpha \<noteq> [] \<and> list_all isDigitOrDot alpha"
    then obtain w3 alpha where t: "tail = '','' @ w3 @ alpha @ '')'' @ after" and w3: "spaces w3"
      and al: "alpha \<noteq> []" "list_all isDigitOrDot alpha"
      by blast
    from al have "\<not> isSpace (hd alpha)"
      by (cases alpha) (auto simp: digitOrDot_not_space)
    with w3 al have "dropWhile isSpace (w3 @ alpha @ '')'' @ after) = alpha @ '')'' @ after"
      by (simp add: spaces_def dropWhile_spaces)
    moreover from al have "takeWhile isDigitOrDot (alpha @ '')'' @ after) = alpha"
      "dropWhile isDigitOrDot (alpha @ '')'' @ after) = '')'' @ after"
      by (simp_all add: takeWhile_run dropWhile_run)
    ultimately show ?thesis
      using al by (simp add: matchTail_def t stripPrefix_def Let_def)
  qed
  have start: "stripPrefix ''rgb'' ?s = Some (drop 3 ?s)"
    by (simp add: whole stripPrefix_def)
  have ne: "ds1 \<noteq> []" "ds2 \<noteq> []" "ds3 \<noteq> []"
    using d by (simp_all add: digits_def)
  show ?thesis
    unfolding matchHere_def start option.case open_paren Let_def g1
    using ne fin by (simp add: stripPrefix_def s6 g2 s9 g3)
qed

lemma matchHere_rgbText:
  assumes "digits ds1" "digits ds2" "digits ds3" "spaces w1" "spaces w2" "alphaText fourth"
  shows "matchHere (rgbText withA ds1 w1 ds2 w2 ds3 fourth) = Some (ds1, ds2, ds3)"
  using matchHere_rgbText_then [OF assms, of withA "[]"] by simp

lemma regexMatch_first: "matchHere s = Some g \<Longrightarrow> regexMatch s = Some g"
  by (cases s) simp_all









lemma getColorBrightness_nonneg: "getColorBrightness s = Some v \<Longrightarrow> 0 \<le> v"
  by (auto simp: getColorBrightness_def Let_def split: if_splits option.splits)

lemma rgbText_not_special:
  "rgbText withA ds1 w1 ds2 w2 ds3 fourth \<noteq> []"
  "rgbText withA ds1 w1 ds2 w2 ds3 fourth \<noteq> ''transparent''"
  by (simp_all add: rgbText_def)




lemma getColorBrightness_rgbText:
  assumes "digits ds1" "digits ds2" "digits ds3" "spaces w1" "spaces w2" "alphaText fourth"
  shows "getColorBrightness (rgbText withA ds1 w1 ds2 w2 ds3 fourth) =
           (if rgbText withA ds1 w1 ds2 w2 ds3 fourth = ''rgba(0, 0, 0, 0)'' then None
            else Some (299 / 1000 * (real (parseInt ds1) / 255)
                       + 587 / 1000 * (real (parseInt ds2) / 255)
                       + 114 / 1000 * (real (parseInt ds3) / 255)))"
  using regexMatch_first [OF matchHere_rgbText [OF assms, of withA]]
  by (simp add: getColorBrightness_def rgbText_not_special Let_def)

subsection \<open>C3\<close>




subsection \<open>Brightness sampling: shared facts\<close>

lemma foldl_invariant:
  assumes "P a" and "\<And>a x. P a \<Longrightarrow> P (f a x)"
  shows "P (foldl f a xs)"
  using assms(1) by (induction xs arbitrary: a) (simp_all add: assms(2))

lemma foldl_invariant_in:
  assumes "P a" and "\<And>a x. x \<in> set xs \<Longrightarrow> P a \<Longrightarrow> P (f a x)"
  shows "P (foldl f a xs)"
  using assms by (induction xs arbitrary: a) simp_all

lemma samplePoint_lower:
  "0 \<le> fst acc \<and> 0 \<le> snd acc \<Longrightarrow>
   0 \<le> fst (samplePoint ov page n x y acc) \<and> 0 \<le> snd (samplePoint ov page n x y acc)"
  by (auto simp: samplePoint_def Let_def split: option.splits dest: getColorBrightness_nonneg)

lemma samplePoint_upper:
  assumes "signalAtMostOneAt ov (gridElements page n x y)" and "fst acc \<le> snd acc"
  shows "fst (samplePoint ov page n x y acc) \<le> snd (samplePoint ov page n x y acc)"
  using assms
  by (auto simp: samplePoint_def Let_def signalAtMostOneAt_def gridElements_def
      signalAtMostOne_def split: option.splits)

lemma onGrid_at:
  "onGrid page n Q \<Longrightarrow> x \<in> set [0..<n] \<Longrightarrow> y \<in> set [0..<n] \<Longrightarrow> Q (gridElements page n x y)"
  by (simp add: onGrid_def list_all_iff)

lemma onGrid_everywhere: "(\<And>x y. Q (gridElements page n x y)) \<Longrightarrow> onGrid page n Q"
  by (simp add: onGrid_def list_all_iff)

lemma sampleGrid_lower: "0 \<le> fst (sampleGrid ov page n) \<and> 0 \<le> snd (sampleGrid ov page n)"
  unfolding sampleGrid_def
  by (rule foldl_invariant, simp, rule foldl_invariant, assumption, rule samplePoint_lower)

lemma sampleGrid_upper:
  assumes "onGrid page n (signalAtMostOneAt ov)"
  shows "fst (sampleGrid ov page n) \<le> snd (sampleGrid ov page n)"
  unfolding sampleGrid_def
  by (rule foldl_invariant_in, simp, rule foldl_invariant_in, assumption)
     (rule samplePoint_upper [OF onGrid_at [OF assms]])

lemma samplePoint_noSignal:
  "noSignal ov (gridElements page n x y) \<Longrightarrow> samplePoint ov page n x y acc = acc"
  by (auto simp: samplePoint_def Let_def noSignal_def gridElements_def split: option.splits)

lemma sampleGrid_noSignal:
  assumes "onGrid page n (noSignal ov)"
  shows "sampleGrid ov page n = (0, 0)"
  unfolding sampleGrid_def
  by (rule foldl_invariant_in, simp, rule foldl_invariant_in, assumption)
     (simp add: samplePoint_noSignal [OF onGrid_at [OF assms]])

lemma sampleBackground_lower:
  "0 \<le> fst acc \<and> 0 \<le> snd acc \<Longrightarrow> 0 \<le> w \<Longrightarrow>
   0 \<le> fst (sampleBackground el w acc) \<and> 0 \<le> snd (sampleBackground el w acc)"
  by (auto simp: sampleBackground_def split: option.splits dest: getColorBrightness_nonneg)

lemma sampleBackground_upper:
  "fst acc \<le> snd acc \<Longrightarrow> 0 \<le> w \<Longrightarrow> signalAtMostOne (backgroundColor el) \<Longrightarrow>
   fst (sampleBackground el w acc) \<le> snd (sampleBackground el w acc)"
  by (auto simp: sampleBackground_def signalAtMostOne_def mult_left_le_one_le
      split: option.splits intro!: add_mono dest: getColorBrightness_nonneg)

lemma sampleBackground_noSignal:
  "getColorBrightness (backgroundColor el) = None \<Longrightarrow> sampleBackground el w acc = acc"
  by (simp add: sampleBackground_def)

lemma samplePageBrightness_nonneg: "0 \<le> samplePageBrightness ov page"
proof -
  let ?grid = "sampleGrid ov page 10"
  let ?w = "max (snd ?grid) 1"
  let ?withBody = "case body page of None \<Rightarrow> ?grid | Some b \<Rightarrow> sampleBackground b ?w ?grid"
  let ?withHtml = "sampleBackground (documentElement page) ?w ?withBody"
  have w: "0 \<le> ?w" by simp
  have "0 \<le> fst ?withBody \<and> 0 \<le> snd ?withBody"
    using sampleGrid_lower [of ov page 10] sampleBackground_lower [OF _ w]
    by (cases "body page") simp_all
  then have "0 \<le> fst ?withHtml \<and> 0 \<le> snd ?withHtml"
    using w by (rule sampleBackground_lower)
  then show ?thesis
    by (simp add: samplePageBrightness_def Let_def)
qed

lemma samplePageBrightness_le_one:
  assumes "signalsAtMostOne ov page"
  shows "samplePageBrightness ov page \<le> 1"
proof -
  let ?grid = "sampleGrid ov page 10"
  let ?w = "max (snd ?grid) 1"
  let ?withBody = "case body page of None \<Rightarrow> ?grid | Some b \<Rightarrow> sampleBackground b ?w ?grid"
  let ?withHtml = "sampleBackground (documentElement page) ?w ?withBody"
  from assms have pts: "onGrid page 10 (signalAtMostOneAt ov)"
    and bd: "case body page of None \<Rightarrow> True | Some b \<Rightarrow> signalAtMostOne (backgroundColor b)"
    and ht: "signalAtMostOne (backgroundColor (documentElement page))"
    by (simp_all add: signalsAtMostOne_def)
  have w: "0 \<le> ?w" by simp
  have "fst ?withBody \<le> snd ?withBody"
    using sampleGrid_upper [OF pts] bd sampleBackground_upper [OF _ w]
    by (cases "body page") simp_all
  then have "fst ?withHtml \<le> snd ?withHtml"
    using w ht by (rule sampleBackground_upper)
  then show ?thesis
    by (simp add: samplePageBrightness_def Let_def)
qed

lemma samplePageBrightness_default:
  assumes "noSignals ov page"
  shows "samplePageBrightness ov page = 1 / 2"
proof -
  from assms have pts: "onGrid page 10 (noSignal ov)"
    and bd: "case body page of None \<Rightarrow> True | Some b \<Rightarrow> getColorBrightness (backgroundColor b) = None"
    and ht: "getColorBrightness (backgroundColor (documentElement page)) = None"
    by (simp_all add: noSignals_def)
  show ?thesis
    using bd ht
    by (simp add: samplePageBrightness_def Let_def sampleGrid_noSignal [OF pts]
        sampleBackground_noSignal split: option.splits)
qed

lemma foldl_const_step:
  "foldl (\<lambda>acc (i::nat). (fst acc + a, snd acc + b)) acc [0..<n]
   = (fst acc + real n * a, snd acc + real n * (b::real))"
  by (induction n) (simp_all add: algebra_simps)

lemma samplePoint_uniformPage:
  assumes "ov \<noteq> ''main''" "getColorBrightness color = Some v"
  shows "samplePoint ov (uniformPage ov color) n x y acc = (fst acc + v, snd acc + 1)"
  using assms by (simp add: samplePoint_def uniformPage_def Let_def)

lemma sampleGrid_uniformPage:
  assumes "ov \<noteq> ''main''" "getColorBrightness color = Some v"
  shows "sampleGrid ov (uniformPage ov color) 10 = (100 * v, 100)"
  by (simp add: sampleGrid_def samplePoint_uniformPage [OF assms] foldl_const_step)

lemma uniformPage_parts:
  "body (uniformPage ov color) = Some \<lparr>elementId = ''body'', backgroundColor = color\<rparr>"
  "documentElement (uniformPage ov color) = \<lparr>elementId = ''html'', backgroundColor = color\<rparr>"
  by (simp_all add: uniformPage_def)

lemma samplePageBrightness_uniformPage:
  assumes "ov \<noteq> ''main''" "getColorBrightness color = Some v"
  shows "samplePageBrightness ov (uniformPage ov color) = v"
  using assms(2)
  by (simp add: samplePageBrightness_def Let_def sampleGrid_uniformPage [OF assms]
      sampleBackground_def uniformPage_parts)

lemma gridElements_uniformPage:
  "gridElements (uniformPage ov color) n x y =
     [\<lparr>elementId = ov, backgroundColor = ''rgb(0, 0, 0)''\<rparr>,
      \<lparr>elementId = ''main'', backgroundColor = color\<rparr>]"
  by (simp add: gridElements_def uniformPage_def)

lemma noSignals_uniformPage:
  "getColorBrightness color = None \<Longrightarrow> noSignals ov (uniformPage ov color)"
  by (simp add: noSignals_def uniformPage_parts)
     (rule onGrid_everywhere, simp add: gridElements_uniformPage noSignal_def)

lemma signalAtMostOne_black: "signalAtMostOne ''rgb(0, 0, 0)''"
  by (simp add: signalAtMostOne_def getColorBrightness_def
      matchHere_def matchTail_def stripPrefix_def isDigit_def isSpace_def
      isDigitOrDot_def parseInt_def digitValue_def Let_def)

lemma signalsAtMostOne_uniformPage:
  "signalAtMostOne color \<Longrightarrow> signalsAtMostOne ov (uniformPage ov color)"
  by (simp add: signalsAtMostOne_def uniformPage_parts)
     (rule onGrid_everywhere,
      simp add: gridElements_uniformPage signalAtMostOneAt_def signalAtMostOne_black)

lemma signalAtMostOne_rgbText:
  assumes "digits ds1" "digits ds2" "digits ds3" "spaces w1" "spaces w2" "alphaText fourth"
    and "parseInt ds1 \<le> 255" "parseInt ds2 \<le> 255" "parseInt ds3 \<le> 255"
  shows "signalAtMostOne (rgbText withA ds1 w1 ds2 w2 ds3 fourth)"
proof -
  have "real (parseInt ds1) / 255 \<le> 1" "real (parseInt ds2) / 255 \<le> 1" "real (parseInt ds3) / 255 \<le> 1"
    using assms(7-9) by simp_all
  then have "299 / 1000 * (real (parseInt ds1) / 255) + 587 / 1000 * (real (parseInt ds2) / 255)
       + 114 / 1000 * (real (parseInt ds3) / 255) \<le> 1"
    by linarith
  then show ?thesis
    by (simp add: signalAtMostOne_def getColorBrightness_rgbText [OF assms(1-6)])
qed

lemma noSignals_cornerPage: "noSignals ov (cornerPage color)"
proof -
  have "gridElements (cornerPage color) 10 x y = []" for x y
    by (simp add: gridElements_def cornerPage_def)
  then have "onGrid (cornerPage color) 10 (noSignal ov)"
    by (intro onGrid_everywhere) (simp add: noSignal_def)
  then show ?thesis
    by (simp add: noSignals_def cornerPage_def getColorBrightness_def)
qed

subsection \<open>C8\<close>

text \<open>
  Claim C8, as stated, fails for colour strings with a channel above 255, which the parser
  accepts: on a page whose every background is \<^verbatim>\<open>rgb(1000, 1000, 1000)\<close> the sampled
  brightness is \<open>1000 / 255\<close>.
\<close>

theorem samplePageBrightness_range_counterexample:
  "samplePageBrightness ''auto-dimmer-overlay''
     (uniformPage ''auto-dimmer-overlay'' ''rgb(1000, 1000, 1000)'') = 200 / 51"
proof -
  have "getColorBrightness ''rgb(1000, 1000, 1000)'' = Some (200 / 51)"
    by (simp add: color_defs)
  then show ?thesis
    by (intro samplePageBrightness_uniformPage) simp_all
qed

text \<open>
  Claim C8, amended. For every page and overlay identifier the sampled brightness is at least
  0. It is at most 1 when every colour the sampler reads (that of the first element that is
  not the overlay at each of the 100 grid points, of the body and of the root element) gives
  a signal of at most 1 or none, as every \<^verbatim>\<open>rgb\<close> or \<^verbatim>\<open>rgba\<close> string with channels up
  to 255 does. When no sample is accepted (no grid point, nor the body, nor the root element
  gives a signal) it is exactly 0.5, whatever lies under the points that are not sampled.
\<close>

theorem samplePageBrightness_range:
  "0 \<le> samplePageBrightness overlayId page
   \<and> (signalsAtMostOne overlayId page \<longrightarrow> samplePageBrightness overlayId page \<le> 1)
   \<and> (noSignals overlayId page \<longrightarrow> samplePageBrightness overlayId page = 1 / 2)
   \<and> (digits ds1 \<and> digits ds2 \<and> digits ds3 \<and> spaces w1 \<and> spaces w2 \<and> alphaText fourth
        \<and> parseInt ds1 \<le> 255 \<and> parseInt ds2 \<le> 255 \<and> parseInt ds3 \<le> 255 \<longrightarrow>
        signalAtMostOne (rgbText withA ds1 w1 ds2 w2 ds3 fourth))"
  by (simp add: samplePageBrightness_nonneg samplePageBrightness_le_one
      samplePageBrightness_default signalAtMostOne_rgbText)

theorem samplePageBrightness_range_witness:
  "signalsAtMostOne ''auto-dimmer-overlay'' (uniformPage ''auto-dimmer-overlay'' ''rgb(255, 255, 255)'')
   \<and> 0 \<le> samplePageBrightness ''auto-dimmer-overlay'' (uniformPage ''auto-dimmer-overlay'' ''rgb(255, 255, 255)'')
   \<and> samplePageBrightness ''auto-dimmer-overlay'' (uniformPage ''auto-dimmer-overlay'' ''rgb(255, 255, 255)'') \<le> 1
   \<and> noSignals ''auto-dimmer-overlay'' (uniformPage ''auto-dimmer-overlay'' ''transparent'')
   \<and> samplePageBrightness ''auto-dimmer-overlay'' (uniformPage ''auto-dimmer-overlay'' ''transparent'') = 1 / 2
   \<and> noSignals ''auto-dimmer-overlay'' (cornerPage ''rgb(255, 255, 255)'')
   \<and> samplePageBrightness ''auto-dimmer-overlay'' (cornerPage ''rgb(255, 255, 255)'') = 1 / 2
   \<and> signalAtMostOne ''rgb(255, 255, 255)''"
proof -
  have d: "digits ''255''" "parseInt ''255'' \<le> 255"
    by (simp_all add: digits_def isDigit_def parseInt_def digitValue_def)
  have w: "spaces '' ''" "alphaText None"
    by (simp_all add: spaces_def isSpace_def alphaText_def)
  have t: "rgbText False ''255'' '' '' ''255'' '' '' ''255'' None = ''rgb(255, 255, 255)''"
    by (simp add: rgbText_def)
  from samplePageBrightness_range [of _ _ "''255''" "''255''" "''255''" "'' ''" "'' ''" None False] d w
  have white: "signalAtMostOne ''rgb(255, 255, 255)''"
    by (simp add: t)
  then have s: "signalsAtMostOne ''auto-dimmer-overlay'' (uniformPage ''auto-dimmer-overlay'' ''rgb(255, 255, 255)'')"
    by (rule signalsAtMostOne_uniformPage)
  have n: "noSignals ''auto-dimmer-overlay'' (uniformPage ''auto-dimmer-overlay'' ''transparent'')"
    by (rule noSignals_uniformPage) (simp add: getColorBrightness_def)
  have c: "noSignals ''auto-dimmer-overlay'' (cornerPage ''rgb(255, 255, 255)'')"
    by (rule noSignals_cornerPage)
  from samplePageBrightness_range
         [of "''auto-dimmer-overlay''" "uniformPage ''auto-dimmer-overlay'' ''rgb(255, 255, 255)''"] s
    samplePageBrightness_range
         [of "''auto-dimmer-overlay''" "uniformPage ''auto-dimmer-overlay'' ''transparent''"] n
    samplePageBrightness_range
         [of "''auto-dimmer-overlay''" "cornerPage ''rgb(255, 255, 255)''"] c
  show ?thesis
    using white by simp
qed

subsection \<open>The control loop: shared facts\<close>

lemma setDimLevel_fields:
  "settings (setDimLevel env level c) = settings c"
  "lastBrightness (setDimLevel env level c) = lastBrightness c"
  "smoothedBrightness (setDimLevel env level c) = smoothedBrightness c"
  "lastAppliedDim (setDimLevel env level c) = lastAppliedDim c"
  "isChecking (setDimLevel env level c) = isChecking c"
  "trace (setDimLevel env level c) = trace c @ [Requested level]"
  by (simp_all add: setDimLevel_def Let_def)

lemma setDimLevel_page: "setDimLevel (env\<lparr>envPage := p\<rparr>) level c = setDimLevel env level c"
  by (simp add: setDimLevel_def Let_def)

lemma checkAndDim_skipped:
  assumes "\<not> isChecking c"
    and "\<not> enabled (getEffectiveSettings (settings c) (envHostname env))
         \<or> isBlacklisted (settings c) (envHostname env)"
  shows "settings (checkAndDim env c) = settings c"
    and "isChecking (checkAndDim env c) = False"
    and "lastBrightness (checkAndDim env c) = lastBrightness c"
    and "smoothedBrightness (checkAndDim env c) = smoothedBrightness c"
    and "lastAppliedDim (checkAndDim env c) = 0"
    and "cycleEvents env c = (if lastAppliedDim c \<noteq> 0 then [Requested 0] else [])"
    and "checkAndDim (env\<lparr>envPage := p\<rparr>) c = checkAndDim env c"
  using assms
  by (auto simp: checkAndDim_def Let_def setDimLevel_fields cycleEvents_def setDimLevel_page)

lemma checkAndDim_sampled:
  assumes "\<not> isChecking c"
    and "enabled (getEffectiveSettings (settings c) (envHostname env))"
    and "\<not> isBlacklisted (settings c) (envHostname env)"
  shows "settings (checkAndDim env c) = settings c"
    and "isChecking (checkAndDim env c) = False"
    and "lastBrightness (checkAndDim env c) = Some (samplePageBrightness OVERLAY_ID (envPage env))"
    and "smoothedBrightness (checkAndDim env c) = Some (cycleSmoothed env c)"
    and "lastAppliedDim (checkAndDim env c) =
           (if \<bar>cycleDimAmount env c - lastAppliedDim c\<bar> \<ge> 3 / 100
            then cycleDimAmount env c else lastAppliedDim c)"
    and "cycleEvents env c =
           [Sampled (samplePageBrightness OVERLAY_ID (envPage env)), Computed (cycleDimAmount env c)]
           @ (if \<bar>cycleDimAmount env c - lastAppliedDim c\<bar> \<ge> 3 / 100
              then [Requested (cycleDimAmount env c),
                    Saved (envHostname env)
                      (currentLevel (state (animationState (checkAndDim env c))))
                      (Some (samplePageBrightness OVERLAY_ID (envPage env)))]
              else [])"
  using assms
  by (auto simp: checkAndDim_def Let_def setDimLevel_fields cycleEvents_def cycleSmoothed_def
      cycleDimAmount_def BRIGHTNESS_SMOOTHING_def DIM_CHANGE_THRESHOLD_def split: option.splits)

lemma exampleEnv_brightness:
  "getColorBrightness color = Some v \<Longrightarrow>
   samplePageBrightness OVERLAY_ID (envPage (exampleEnv host color now)) = v"
  by (simp add: exampleEnv_def) (rule samplePageBrightness_uniformPage, simp_all add: OVERLAY_ID_def)

lemma exampleEnv_hostname: "envHostname (exampleEnv host color now) = host"
  by (simp add: exampleEnv_def)

lemmas settings_defs = DEFAULT_SETTINGS_def getEffectiveSettings_def isBlacklisted_def
  isWhitelisted_def matchesAnyPattern_def matchesPattern_def initialControl_def

subsection \<open>C2\<close>

text \<open>
  Claim C2. In a cycle that runs (the re-entrancy flag is clear) with the site enabled: when
  the host name matches the blacklist, the last applied dim becomes 0, the only thing the
  cycle may do is request level 0, the page is not sampled (no sampling event, the stored
  brightness values are untouched, and the result is the same for every page), whatever the
  whitelist says; when it matches the whitelist and not the blacklist, the cycle samples and
  its dim amount is the effective \<open>dimIntensity\<close> for every page, which it requests when it
  differs from the last applied dim by at least 3 percent.
\<close>

theorem blacklist_and_whitelist_override:
  assumes "\<not> isChecking c"
    and "enabled (getEffectiveSettings (settings c) (envHostname env))"
  shows "(isBlacklisted (settings c) (envHostname env) \<longrightarrow>
            lastAppliedDim (checkAndDim env c) = 0
            \<and> cycleEvents env c = (if lastAppliedDim c \<noteq> 0 then [Requested 0] else [])
            \<and> lastBrightness (checkAndDim env c) = lastBrightness c
            \<and> smoothedBrightness (checkAndDim env c) = smoothedBrightness c
            \<and> (\<forall>p. checkAndDim (env\<lparr>envPage := p\<rparr>) c = checkAndDim env c))
         \<and> (\<not> isBlacklisted (settings c) (envHostname env)
              \<and> isWhitelisted (settings c) (envHostname env) \<longrightarrow>
            take 2 (cycleEvents env c) =
              [Sampled (samplePageBrightness OVERLAY_ID (envPage env)),
               Computed (dimIntensity (getEffectiveSettings (settings c) (envHostname env)))]
            \<and> drop 2 (cycleEvents env c) =
              (if \<bar>dimIntensity (getEffectiveSettings (settings c) (envHostname env)) - lastAppliedDim c\<bar>
                    \<ge> 3 / 100
               then [Requested (dimIntensity (getEffectiveSettings (settings c) (envHostname env))),
                     Saved (envHostname env)
                       (currentLevel (state (animationState (checkAndDim env c))))
                       (Some (samplePageBrightness OVERLAY_ID (envPage env)))]
               else []))"
proof (intro conjI impI)
  assume b: "isBlacklisted (settings c) (envHostname env)"
  then have skip: "\<not> enabled (getEffectiveSettings (settings c) (envHostname env))
         \<or> isBlacklisted (settings c) (envHostname env)"
    by simp
  note facts = checkAndDim_skipped [OF assms(1) skip]
  show "lastAppliedDim (checkAndDim env c) = 0"
    by (rule facts)
  show "cycleEvents env c = (if lastAppliedDim c \<noteq> 0 then [Requested 0] else [])"
    by (rule facts)
  show "lastBrightness (checkAndDim env c) = lastBrightness c"
    by (rule facts)
  show "smoothedBrightness (checkAndDim env c) = smoothedBrightness c"
    by (rule facts)
  show "\<forall>p. checkAndDim (env\<lparr>envPage := p\<rparr>) c = checkAndDim env c"
    by (simp add: facts)
next
  assume w: "\<not> isBlacklisted (settings c) (envHostname env)
              \<and> isWhitelisted (settings c) (envHostname env)"
  then have d: "cycleDimAmount env c = dimIntensity (getEffectiveSettings (settings c) (envHostname env))"
    by (simp add: cycleDimAmount_def)
  from w have nb: "\<not> isBlacklisted (settings c) (envHostname env)"
    by simp
  note ev = checkAndDim_sampled(6) [OF assms nb, unfolded d]
  show "take 2 (cycleEvents env c) =
              [Sampled (samplePageBrightness OVERLAY_ID (envPage env)),
               Computed (dimIntensity (getEffectiveSettings (settings c) (envHostname env)))]"
    by (subst ev) simp
  show "drop 2 (cycleEvents env c) =
              (if \<bar>dimIntensity (getEffectiveSettings (settings c) (envHostname env)) - lastAppliedDim c\<bar>
                    \<ge> 3 / 100
               then [Requested (dimIntensity (getEffectiveSettings (settings c) (envHostname env))),
                     Saved (envHostname env)
                       (currentLevel (state (animationState (checkAndDim env c))))
                       (Some (samplePageBrightness OVERLAY_ID (envPage env)))]
               else [])"
    by (subst ev) simp
qed

theorem blacklist_and_whitelist_override_witness:
  "enabled (getEffectiveSettings
      (DEFAULT_SETTINGS\<lparr>blacklist := [''example.com''], whitelist := [''example.com'']\<rparr>)
      ''www.example.com'')
   \<and> isBlacklisted (DEFAULT_SETTINGS\<lparr>blacklist := [''example.com''], whitelist := [''example.com'']\<rparr>)
     ''www.example.com''
   \<and> isWhitelisted (DEFAULT_SETTINGS\<lparr>blacklist := [''example.com''], whitelist := [''example.com'']\<rparr>)
     ''www.example.com''
   \<and> lastAppliedDim
        (checkAndDim (exampleEnv ''www.example.com'' ''rgb(255, 255, 255)'' 0)
           ((initialControl (DEFAULT_SETTINGS\<lparr>blacklist := [''example.com''],
                                               whitelist := [''example.com'']\<rparr>))
              \<lparr>lastAppliedDim := 3 / 10\<rparr>)) = 0
   \<and> cycleEvents (exampleEnv ''www.example.com'' ''rgb(255, 255, 255)'' 0)
        ((initialControl (DEFAULT_SETTINGS\<lparr>blacklist := [''example.com''],
                                            whitelist := [''example.com'']\<rparr>))
           \<lparr>lastAppliedDim := 3 / 10\<rparr>) = [Requested 0]
   \<and> isWhitelisted (DEFAULT_SETTINGS\<lparr>whitelist := [''example.com'']\<rparr>) ''www.example.com''
   \<and> samplePageBrightness OVERLAY_ID (envPage (exampleEnv ''www.example.com'' ''rgb(0, 0, 0)'' 0)) = 0
   \<and> take 2 (cycleEvents (exampleEnv ''www.example.com'' ''rgb(0, 0, 0)'' 0)
        (initialControl (DEFAULT_SETTINGS\<lparr>whitelist := [''example.com'']\<rparr>)))
      = [Sampled 0, Computed (3 / 10)]"
proof -
  let ?sb = "DEFAULT_SETTINGS\<lparr>blacklist := [''example.com''], whitelist := [''example.com'']\<rparr>"
  let ?cb = "(initialControl ?sb)\<lparr>lastAppliedDim := 3 / 10\<rparr>"
  let ?eb = "exampleEnv ''www.example.com'' ''rgb(255, 255, 255)'' 0"
  let ?sw = "DEFAULT_SETTINGS\<lparr>whitelist := [''example.com'']\<rparr>"
  let ?cw = "initialControl ?sw"
  let ?ew = "exampleEnv ''www.example.com'' ''rgb(0, 0, 0)'' 0"
  have b: "\<not> isChecking ?cb" "enabled (getEffectiveSettings (settings ?cb) (envHostname ?eb))"
    "isBlacklisted (settings ?cb) (envHostname ?eb)" "lastAppliedDim ?cb = 3 / 10" "settings ?cb = ?sb"
    by (simp_all add: settings_defs exampleEnv_hostname)
  have w: "\<not> isChecking ?cw" "enabled (getEffectiveSettings (settings ?cw) (envHostname ?ew))"
    "\<not> isBlacklisted (settings ?cw) (envHostname ?ew)" "isWhitelisted (settings ?cw) (envHostname ?ew)"
    "dimIntensity (getEffectiveSettings (settings ?cw) (envHostname ?ew)) = 3 / 10" "settings ?cw = ?sw"
    by (simp_all add: settings_defs exampleEnv_hostname)
  have "getColorBrightness ''rgb(0, 0, 0)'' = Some 0"
    by (simp add: color_defs)
  then have raw: "samplePageBrightness OVERLAY_ID (envPage ?ew) = 0"
    by (rule exampleEnv_brightness)
  from blacklist_and_whitelist_override [OF b(1,2)] b(3)
  have "lastAppliedDim (checkAndDim ?eb ?cb) = 0"
    and "cycleEvents ?eb ?cb = (if lastAppliedDim ?cb \<noteq> 0 then [Requested 0] else [])"
    by blast+
  moreover from blacklist_and_whitelist_override [OF w(1,2)] w(3,4)
  have "take 2 (cycleEvents ?ew ?cw) =
              [Sampled (samplePageBrightness OVERLAY_ID (envPage ?ew)),
               Computed (dimIntensity (getEffectiveSettings (settings ?cw) (envHostname ?ew)))]"
    by blast
  moreover have "dimIntensity (getEffectiveSettings ?sw ''www.example.com'') = 3 / 10"
    by (simp add: settings_defs)
  moreover have "enabled (getEffectiveSettings ?sb ''www.example.com'')"
    "isWhitelisted ?sb ''www.example.com''"
    by (simp_all add: settings_defs)
  ultimately show ?thesis
    using b(3) w(4) raw by (simp add: b(4,5) w(5,6) exampleEnv_hostname)
qed

subsection \<open>C7\<close>

text \<open>
  Claim C7. A cycle that samples sets the smoothed brightness to the raw brightness when there
  was none, and to \<open>0.3 \<sqdot> raw + 0.7 \<sqdot> previous\<close> otherwise. With the site enabled,
  \<open>dimIntensity\<close> 0.5, threshold 0.6 and dynamic mode, on a host with no override that is on
  neither list, three cycles from the initial state on pages of raw brightness 0.9 each leave
  the smoothed brightness at 0.9 and each compute the dim amount 0.375.
\<close>

theorem smoothing_and_three_bright_cycles:
  "(\<not> isChecking c \<and> enabled (getEffectiveSettings (settings c) (envHostname env))
      \<and> \<not> isBlacklisted (settings c) (envHostname env) \<longrightarrow>
      smoothedBrightness (checkAndDim env c) =
        Some (case smoothedBrightness c of
                None \<Rightarrow> samplePageBrightness OVERLAY_ID (envPage env)
              | Some previous \<Rightarrow>
                  3 / 10 * samplePageBrightness OVERLAY_ID (envPage env) + 7 / 10 * previous))
   \<and> (enabled s \<and> dimIntensity s = 1 / 2 \<and> brightnessThreshold s = 6 / 10 \<and> dynamicMode s
        \<and> siteSettings s host = None \<and> \<not> isBlacklisted s host \<and> \<not> isWhitelisted s host
        \<and> envHostname e1 = host \<and> envHostname e2 = host \<and> envHostname e3 = host
        \<and> samplePageBrightness OVERLAY_ID (envPage e1) = 9 / 10
        \<and> samplePageBrightness OVERLAY_ID (envPage e2) = 9 / 10
        \<and> samplePageBrightness OVERLAY_ID (envPage e3) = 9 / 10 \<longrightarrow>
        smoothedBrightness (cycles [e1] (initialControl s)) = Some (9 / 10)
        \<and> smoothedBrightness (cycles [e1, e2] (initialControl s)) = Some (9 / 10)
        \<and> smoothedBrightness (cycles [e1, e2, e3] (initialControl s)) = Some (9 / 10)
        \<and> take 2 (cycleEvents e1 (initialControl s)) = [Sampled (9 / 10), Computed (3 / 8)]
        \<and> take 2 (cycleEvents e2 (cycles [e1] (initialControl s))) = [Sampled (9 / 10), Computed (3 / 8)]
        \<and> take 2 (cycleEvents e3 (cycles [e1, e2] (initialControl s))) = [Sampled (9 / 10), Computed (3 / 8)])"
proof (intro conjI impI)
  assume "\<not> isChecking c \<and> enabled (getEffectiveSettings (settings c) (envHostname env))
      \<and> \<not> isBlacklisted (settings c) (envHostname env)"
  then show "smoothedBrightness (checkAndDim env c) =
        Some (case smoothedBrightness c of
                None \<Rightarrow> samplePageBrightness OVERLAY_ID (envPage env)
              | Some previous \<Rightarrow>
                  3 / 10 * samplePageBrightness OVERLAY_ID (envPage env) + 7 / 10 * previous)"
    by (simp add: checkAndDim_sampled(4) cycleSmoothed_def)
next
  assume a: "enabled s \<and> dimIntensity s = 1 / 2 \<and> brightnessThreshold s = 6 / 10 \<and> dynamicMode s
        \<and> siteSettings s host = None \<and> \<not> isBlacklisted s host \<and> \<not> isWhitelisted s host
        \<and> envHostname e1 = host \<and> envHostname e2 = host \<and> envHostname e3 = host
        \<and> samplePageBrightness OVERLAY_ID (envPage e1) = 9 / 10
        \<and> samplePageBrightness OVERLAY_ID (envPage e2) = 9 / 10
        \<and> samplePageBrightness OVERLAY_ID (envPage e3) = 9 / 10"
  define c0 where "c0 = initialControl s"
  define c1 where "c1 = checkAndDim e1 c0"
  define c2 where "c2 = checkAndDim e2 c1"
  define c3 where "c3 = checkAndDim e3 c2"
  from a have en: "enabled s" and dyn: "dynamicMode s" and site: "siteSettings s host = None"
    and nb: "\<not> isBlacklisted s host" and nw: "\<not> isWhitelisted s host"
    and flds: "dimIntensity s = 1 / 2" "brightnessThreshold s = 6 / 10"
    and hosts: "envHostname e1 = host" "envHostname e2 = host" "envHostname e3 = host"
    and raws: "samplePageBrightness OVERLAY_ID (envPage e1) = 9 / 10"
      "samplePageBrightness OVERLAY_ID (envPage e2) = 9 / 10"
      "samplePageBrightness OVERLAY_ID (envPage e3) = 9 / 10"
    by blast+
  from site have eff: "getEffectiveSettings s host = s"
    by (simp add: getEffectiveSettings_def)
  have amount: "cycleDimAmount e c = 3 / 8"
    if "settings c = s" "envHostname e = host" "cycleSmoothed e c = 9 / 10" for e c
    unfolding cycleDimAmount_def Let_def that eff flds
    using nw dyn by (simp add: calculateDimAmount_def Let_def)
  have first: "cycleSmoothed e c = 9 / 10"
    if "smoothedBrightness c = None" "samplePageBrightness OVERLAY_ID (envPage e) = 9 / 10" for e c
    unfolding cycleSmoothed_def that by simp
  have later: "cycleSmoothed e c = 9 / 10"
    if "smoothedBrightness c = Some (9 / 10)" "samplePageBrightness OVERLAY_ID (envPage e) = 9 / 10" for e c
    unfolding cycleSmoothed_def that by simp
  have pre: "enabled (getEffectiveSettings (settings c) (envHostname e))
             \<and> \<not> isBlacklisted (settings c) (envHostname e)"
    if "settings c = s" "envHostname e = host" for e c
    unfolding that eff using en nb by simp
  have c0: "settings c0 = s" "\<not> isChecking c0" "smoothedBrightness c0 = None" "lastAppliedDim c0 = 0"
    by (simp_all add: c0_def initialControl_def)
  note p1 = pre [OF c0(1) hosts(1)]
  note f1 = checkAndDim_sampled [OF c0(2) conjunct1 [OF p1] conjunct2 [OF p1], folded c1_def]
  note sm1 = first [OF c0(3) raws(1)]
  note d1 = amount [OF c0(1) hosts(1) sm1]
  have c1: "settings c1 = s" "\<not> isChecking c1" "smoothedBrightness c1 = Some (9 / 10)"
    by (simp_all add: f1 c0 sm1)
  note p2 = pre [OF c1(1) hosts(2)]
  note f2 = checkAndDim_sampled [OF c1(2) conjunct1 [OF p2] conjunct2 [OF p2], folded c2_def]
  note sm2 = later [OF c1(3) raws(2)]
  note d2 = amount [OF c1(1) hosts(2) sm2]
  have c2: "settings c2 = s" "\<not> isChecking c2" "smoothedBrightness c2 = Some (9 / 10)"
    by (simp_all add: f2 c1 sm2)
  note p3 = pre [OF c2(1) hosts(3)]
  note f3 = checkAndDim_sampled [OF c2(2) conjunct1 [OF p3] conjunct2 [OF p3], folded c3_def]
  note sm3 = later [OF c2(3) raws(3)]
  note d3 = amount [OF c2(1) hosts(3) sm3]
  have c3: "smoothedBrightness c3 = Some (9 / 10)"
    by (simp add: f3 sm3)
  have runs: "cycles [e1] (initialControl s) = c1" "cycles [e1, e2] (initialControl s) = c2"
    "cycles [e1, e2, e3] (initialControl s) = c3"
    by (simp_all add: c0_def c1_def c2_def c3_def)
  show "smoothedBrightness (cycles [e1] (initialControl s)) = Some (9 / 10)"
    by (simp only: runs c1)
  show "smoothedBrightness (cycles [e1, e2] (initialControl s)) = Some (9 / 10)"
    by (simp only: runs c2)
  show "smoothedBrightness (cycles [e1, e2, e3] (initialControl s)) = Some (9 / 10)"
    by (simp only: runs c3)
  show "take 2 (cycleEvents e1 (initialControl s)) = [Sampled (9 / 10), Computed (3 / 8)]"
    unfolding c0_def [symmetric] f1(6) raws d1 by simp
  show "take 2 (cycleEvents e2 (cycles [e1] (initialControl s))) = [Sampled (9 / 10), Computed (3 / 8)]"
    unfolding runs f2(6) raws d2 by simp
  show "take 2 (cycleEvents e3 (cycles [e1, e2] (initialControl s))) = [Sampled (9 / 10), Computed (3 / 8)]"
    unfolding runs f3(6) raws d3 by simp
qed

theorem smoothing_and_three_bright_cycles_witness:
  "samplePageBrightness OVERLAY_ID (envPage (exampleEnv ''example.com'' ''rgb(222, 234, 226)'' 0)) = 9 / 10
   \<and> smoothedBrightness
        (cycles [exampleEnv ''example.com'' ''rgb(222, 234, 226)'' 0,
                 exampleEnv ''example.com'' ''rgb(222, 234, 226)'' 3000,
                 exampleEnv ''example.com'' ''rgb(222, 234, 226)'' 6000]
           (initialControl (DEFAULT_SETTINGS\<lparr>dimIntensity := 1 / 2\<rparr>))) = Some (9 / 10)
   \<and> take 2 (cycleEvents (exampleEnv ''example.com'' ''rgb(222, 234, 226)'' 6000)
        (cycles [exampleEnv ''example.com'' ''rgb(222, 234, 226)'' 0,
                 exampleEnv ''example.com'' ''rgb(222, 234, 226)'' 3000]
           (initialControl (DEFAULT_SETTINGS\<lparr>dimIntensity := 1 / 2\<rparr>))))
      = [Sampled (9 / 10), Computed (3 / 8)]"
proof -
  let ?s = "DEFAULT_SETTINGS\<lparr>dimIntensity := 1 / 2\<rparr>"
  have color: "getColorBrightness ''rgb(222, 234, 226)'' = Some (9 / 10)"
    by (simp add: color_defs)
  have raw: "samplePageBrightness OVERLAY_ID (envPage (exampleEnv ''example.com'' ''rgb(222, 234, 226)'' now)) = 9 / 10"
    for now
    using color by (rule exampleEnv_brightness)
  have cfg: "enabled ?s \<and> dimIntensity ?s = 1 / 2 \<and> brightnessThreshold ?s = 6 / 10 \<and> dynamicMode ?s
        \<and> siteSettings ?s ''example.com'' = None \<and> \<not> isBlacklisted ?s ''example.com''
        \<and> \<not> isWhitelisted ?s ''example.com''"
    by (simp add: settings_defs)
  from smoothing_and_three_bright_cycles
         [of _ _ ?s "''example.com''" "exampleEnv ''example.com'' ''rgb(222, 234, 226)'' 0"
            "exampleEnv ''example.com'' ''rgb(222, 234, 226)'' 3000"
            "exampleEnv ''example.com'' ''rgb(222, 234, 226)'' 6000"]
    cfg raw
  show ?thesis
    by (simp only: exampleEnv_hostname simp_thms)
qed

end
